theory Spec2Isabelle
  imports Main "HOL-Library.AList"
begin

section \<open>The object heap of \<^verbatim>\<open>js/script.js\<close>\<close>

text \<open>
  The construction engine of the script works on two kinds of heap objects, \<^verbatim>\<open>Symbol\<close>
  and \<^verbatim>\<open>Rule\<close>, and one global table, \<^verbatim>\<open>digramIndex\<close>. A Symbol object is
  identified by its address (a natural number, handed out in allocation order); a Rule
  object is identified by its \<^verbatim>\<open>uniqueNumber\<close>, which the constructor draws from the
  global counter \<^verbatim>\<open>Rule.uniqueRuleNumber\<close> and which is never reused. The heap
  and the table are association lists, an assignment replacing the entry of its key or
  adding one. A terminal is one character of the input. A reference that may be
  \<^verbatim>\<open>null\<close> is an \<open>option\<close>. Dereferencing \<^verbatim>\<open>null\<close> raises a JavaScript
  TypeError, which nothing in the script catches: it is the error value \<open>TypeError\<close>.
  The mutually recursive methods \<^verbatim>\<open>check\<close>, \<^verbatim>\<open>processMatch\<close> and \<^verbatim>\<open>substitute\<close>
  carry a call budget; running out of it is the error \<open>OutOfFuel\<close>.
\<close>

datatype error = TypeError | OutOfFuel

record symbol =
  sym_next :: "nat option"
  sym_prev :: "nat option"
  sym_terminal :: "char option"
  sym_rule :: "nat option"

record rule =
  guard :: nat
  referenceCount :: int

text \<open>
  A value of the table \<^verbatim>\<open>digramIndex\<close> is a Symbol or, after
  \<^verbatim>\<open>digramIndex[k] = null\<close>, null (\<open>None\<close>).
\<close>

record state =
  symbols :: "(nat \<times> symbol) list"
  rules :: "(nat \<times> rule) list"
  digramIndex :: "(string \<times> nat option) list"
  uniqueRuleNumber :: nat
  symbolCount :: nat

text \<open>What \<^verbatim>\<open>Symbol.prototype.value\<close> returns: a Rule object, a terminal string or null.\<close>

datatype val = VRule nat | VTerminal char | VNull

text \<open>The argument of \<^verbatim>\<open>new Symbol(value)\<close>, by its dynamic type.\<close>

datatype jsvalue = JString char | JSymbol nat | JRule nat | JNull | JUndefined

text \<open>The three results of \<^verbatim>\<open>check\<close>: \<^verbatim>\<open>0\<close>, \<^verbatim>\<open>false\<close> and \<^verbatim>\<open>true\<close>.\<close>

datatype checked = Zero | False_recorded | True_matched

definition truthy :: "checked \<Rightarrow> bool" where
  "truthy r = (r = True_matched)"

definition thenE :: "error + 'a \<Rightarrow> ('a \<Rightarrow> error + 'b) \<Rightarrow> error + 'b" where
  "thenE m f = (case m of Inl e \<Rightarrow> Inl e | Inr x \<Rightarrow> f x)"

definition nonNull :: "'a option \<Rightarrow> error + 'a" where
  "nonNull r = (case r of None \<Rightarrow> Inl TypeError | Some a \<Rightarrow> Inr a)"

definition symbolAt :: "state \<Rightarrow> nat \<Rightarrow> error + symbol" where
  "symbolAt st a = nonNull (map_of (symbols st) a)"

definition ruleObject :: "state \<Rightarrow> nat \<Rightarrow> error + rule" where
  "ruleObject st u = nonNull (map_of (rules st) u)"

definition getNext :: "state \<Rightarrow> nat \<Rightarrow> error + nat option" where
  "getNext st a = thenE (symbolAt st a) (\<lambda>s. Inr (sym_next s))"

definition getPrev :: "state \<Rightarrow> nat \<Rightarrow> error + nat option" where
  "getPrev st a = thenE (symbolAt st a) (\<lambda>s. Inr (sym_prev s))"

definition getRule :: "state \<Rightarrow> nat \<Rightarrow> error + nat option" where
  "getRule st a = thenE (symbolAt st a) (\<lambda>s. Inr (sym_rule s))"

definition getTerminal :: "state \<Rightarrow> nat \<Rightarrow> error + char option" where
  "getTerminal st a = thenE (symbolAt st a) (\<lambda>s. Inr (sym_terminal s))"

text \<open>\<^verbatim>\<open>x.getNext()\<close> and \<^verbatim>\<open>x.getPrev()\<close> on a reference \<open>x\<close> that may be null.\<close>

definition nextOf :: "state \<Rightarrow> nat option \<Rightarrow> error + nat option" where
  "nextOf st r = thenE (nonNull r) (getNext st)"

definition prevOf :: "state \<Rightarrow> nat option \<Rightarrow> error + nat option" where
  "prevOf st r = thenE (nonNull r) (getPrev st)"

subsection \<open>Rule\<close>

definition rule_first :: "state \<Rightarrow> nat \<Rightarrow> error + nat option" where
  "rule_first st u = thenE (ruleObject st u) (\<lambda>r. getNext st (guard r))"

definition rule_last :: "state \<Rightarrow> nat \<Rightarrow> error + nat option" where
  "rule_last st u = thenE (ruleObject st u) (\<lambda>r. getPrev st (guard r))"

definition getReferenceCount :: "state \<Rightarrow> nat \<Rightarrow> error + int" where
  "getReferenceCount st u = thenE (ruleObject st u) (\<lambda>r. Inr (referenceCount r))"

definition incrementReferenceCount :: "nat \<Rightarrow> state \<Rightarrow> error + state" where
  "incrementReferenceCount u st = thenE (ruleObject st u) (\<lambda>r.
     Inr (st\<lparr>rules := AList.update u (r\<lparr>referenceCount := referenceCount r + 1\<rparr>) (rules st)\<rparr>))"

definition decrementReferenceCount :: "nat \<Rightarrow> state \<Rightarrow> error + state" where
  "decrementReferenceCount u st = thenE (ruleObject st u) (\<lambda>r.
     Inr (st\<lparr>rules := AList.update u (r\<lparr>referenceCount := referenceCount r - 1\<rparr>) (rules st)\<rparr>))"

subsection \<open>Symbol: reading\<close>

text \<open>
  \<^verbatim>\<open>isGuard\<close>: \<^verbatim>\<open>this.getRule() && this.getRule().first().getPrev() == this\<close>.
\<close>

definition isGuard :: "state \<Rightarrow> nat \<Rightarrow> error + bool" where
  "isGuard st a = thenE (getRule st a) (\<lambda>r.
     case r of None \<Rightarrow> Inr False
     | Some u \<Rightarrow> thenE (rule_first st u) (\<lambda>f. thenE (prevOf st f) (\<lambda>p. Inr (p = Some a))))"

definition guardAt :: "state \<Rightarrow> nat option \<Rightarrow> error + bool" where
  "guardAt st r = thenE (nonNull r) (isGuard st)"

definition valueOf :: "state \<Rightarrow> nat \<Rightarrow> error + val" where
  "valueOf st a = thenE (symbolAt st a) (\<lambda>s.
     case sym_rule s of Some u \<Rightarrow> Inr (VRule u)
     | None \<Rightarrow> (case sym_terminal s of Some c \<Rightarrow> Inr (VTerminal c) | None \<Rightarrow> Inr VNull))"

text \<open>Decimal digits of a number, as string concatenation prints it.\<close>

fun numberToString :: "nat \<Rightarrow> string" where
  "numberToString n =
     (if n < 10 then [''0123456789'' ! n]
      else numberToString (n div 10) @ [''0123456789'' ! (n mod 10)])"

declare numberToString.simps [simp del]

text \<open>
  \<^verbatim>\<open>stringValue\<close>; a symbol with neither rule nor terminal returns null, which the
  concatenation in \<^verbatim>\<open>hashValue\<close> prints as \<^verbatim>\<open>null\<close>.
\<close>

definition stringValue :: "state \<Rightarrow> nat \<Rightarrow> error + string" where
  "stringValue st a = thenE (symbolAt st a) (\<lambda>s.
     case sym_rule s of Some u \<Rightarrow> Inr (''rule:'' @ numberToString u)
     | None \<Rightarrow> (case sym_terminal s of Some c \<Rightarrow> Inr [c] | None \<Rightarrow> Inr ''null''))"

definition hashValue :: "state \<Rightarrow> nat \<Rightarrow> error + string" where
  "hashValue st a = thenE (stringValue st a) (\<lambda>x.
     thenE (getNext st a) (\<lambda>n. thenE (nonNull n) (\<lambda>b.
     thenE (stringValue st b) (\<lambda>y. Inr (x @ ''+'' @ y)))))"

subsection \<open>Symbol: construction and linking\<close>

definition allocate :: "symbol \<Rightarrow> state \<Rightarrow> nat \<times> state" where
  "allocate s st =
     (symbolCount st,
      st\<lparr>symbols := AList.update (symbolCount st) s (symbols st),
         symbolCount := symbolCount st + 1\<rparr>)"

definition blank :: symbol where
  "blank = \<lparr>sym_next = None, sym_prev = None, sym_terminal = None, sym_rule = None\<rparr>"

text \<open>
  \<^verbatim>\<open>new Symbol(value)\<close>. A string becomes a terminal. A Symbol argument is copied: its
  terminal if it has one, else its rule (whose count is incremented); a Symbol with
  neither falls to the last branch, where \<^verbatim>\<open>incrementReferenceCount\<close> does not exist on
  the argument. A Rule argument has neither property and is referenced, its count
  incremented. \<^verbatim>\<open>null\<close> is an object whose property cannot be read; \<^verbatim>\<open>undefined\<close>
  is only logged and leaves all fields null.
\<close>

definition newSymbol :: "jsvalue \<Rightarrow> state \<Rightarrow> error + nat \<times> state" where
  "newSymbol v st =
     (case v of
        JString c \<Rightarrow> Inr (allocate (blank\<lparr>sym_terminal := Some c\<rparr>) st)
      | JSymbol b \<Rightarrow> thenE (symbolAt st b) (\<lambda>s.
          case sym_terminal s of
            Some c \<Rightarrow> Inr (allocate (blank\<lparr>sym_terminal := Some c\<rparr>) st)
          | None \<Rightarrow> (case sym_rule s of
              Some u \<Rightarrow> thenE (incrementReferenceCount u st) (\<lambda>st1.
                Inr (allocate (blank\<lparr>sym_rule := Some u\<rparr>) st1))
            | None \<Rightarrow> Inl TypeError))
      | JRule u \<Rightarrow> thenE (incrementReferenceCount u st) (\<lambda>st1.
          Inr (allocate (blank\<lparr>sym_rule := Some u\<rparr>) st1))
      | JNull \<Rightarrow> Inl TypeError
      | JUndefined \<Rightarrow> Inr (allocate blank st))"

definition setNext :: "nat \<Rightarrow> nat option \<Rightarrow> state \<Rightarrow> error + state" where
  "setNext a v st = thenE (symbolAt st a) (\<lambda>s.
     Inr (st\<lparr>symbols := AList.update a (s\<lparr>sym_next := v\<rparr>) (symbols st)\<rparr>))"

definition setPrev :: "nat \<Rightarrow> nat option \<Rightarrow> state \<Rightarrow> error + state" where
  "setPrev a v st = thenE (symbolAt st a) (\<lambda>s.
     Inr (st\<lparr>symbols := AList.update a (s\<lparr>sym_prev := v\<rparr>) (symbols st)\<rparr>))"

definition setIndex :: "string \<Rightarrow> nat option \<Rightarrow> state \<Rightarrow> state" where
  "setIndex k v st = st\<lparr>digramIndex := AList.update k v (digramIndex st)\<rparr>"

text \<open>
  The Symbol that \<^verbatim>\<open>digramIndex[k]\<close> reads, if it is one: \<^verbatim>\<open>undefined\<close> (no
  entry) and \<^verbatim>\<open>null\<close> are both falsy and both differ from every Symbol.
\<close>

definition entry :: "state \<Rightarrow> string \<Rightarrow> nat option" where
  "entry st k = (case map_of (digramIndex st) k of Some (Some a) \<Rightarrow> Some a | _ \<Rightarrow> None)"

text \<open>
  \<^verbatim>\<open>deleteDigram\<close>: nothing for a guard or before a guard; otherwise the entry under
  this symbol's key is cleared if it is this symbol.
\<close>

definition deleteDigram :: "nat \<Rightarrow> state \<Rightarrow> error + state" where
  "deleteDigram a st = thenE (isGuard st a) (\<lambda>g.
     if g then Inr st
     else thenE (getNext st a) (\<lambda>n. thenE (guardAt st n) (\<lambda>g'.
       if g' then Inr st
       else thenE (hashValue st a) (\<lambda>k.
         if entry st k = Some a then Inr (setIndex k None st) else Inr st))))"

text \<open>
  The test of both triple branches of \<^verbatim>\<open>join\<close>: \<^verbatim>\<open>x.prev && x.next &&\<close> the value of
  \<open>x\<close> equals that of both neighbours.
\<close>

definition tripleCentre :: "state \<Rightarrow> nat \<Rightarrow> error + bool" where
  "tripleCentre st x = thenE (symbolAt st x) (\<lambda>s.
     case sym_prev s of None \<Rightarrow> Inr False
     | Some p \<Rightarrow> (case sym_next s of None \<Rightarrow> Inr False
       | Some n \<Rightarrow> thenE (valueOf st x) (\<lambda>v. thenE (valueOf st p) (\<lambda>vp.
           thenE (valueOf st n) (\<lambda>vn. Inr (v = vp \<and> v = vn))))))"

text \<open>
  \<^verbatim>\<open>this.join(right)\<close>. When \<open>this\<close> already has a successor, the old digram is removed
  from the table; then \<open>right\<close>, if it is the centre of a triple, is stored under its
  key, and \<open>this\<close>, if it is the centre of a triple, is stored under its own key (computed
  with its old successor). Then the two are linked.
\<close>

definition join :: "nat \<Rightarrow> nat \<Rightarrow> state \<Rightarrow> error + state" where
  "join this right st = thenE (getNext st this) (\<lambda>n.
     thenE (if n \<noteq> None then
              thenE (deleteDigram this st) (\<lambda>st1.
              thenE (tripleCentre st1 right) (\<lambda>tr.
              thenE (if tr then thenE (hashValue st1 right) (\<lambda>k. Inr (setIndex k (Some right) st1))
                     else Inr st1) (\<lambda>st2.
              thenE (tripleCentre st2 this) (\<lambda>tl.
              if tl then thenE (hashValue st2 this) (\<lambda>k. Inr (setIndex k (Some this) st2))
              else Inr st2))))
            else Inr st) (\<lambda>st3.
     thenE (setNext this (Some right) st3) (\<lambda>st4. setPrev right (Some this) st4)))"

text \<open>\<^verbatim>\<open>new Rule()\<close>: a self-linked guard, count 0 and the next unique number.\<close>

definition newRule :: "state \<Rightarrow> error + nat \<times> state" where
  "newRule st =
     (let u = uniqueRuleNumber st;
          (g, st1) = allocate (blank\<lparr>sym_rule := Some u\<rparr>) st;
          st2 = st1\<lparr>rules := AList.update u \<lparr>guard = g, referenceCount = 0\<rparr> (rules st1),
                    uniqueRuleNumber := u + 1\<rparr>
      in thenE (join g g st2) (\<lambda>st3. Inr (u, st3)))"

text \<open>
  \<^verbatim>\<open>delete\<close>: \<^verbatim>\<open>this.prev.join(this.next)\<close>; then, unless this is a guard, its digram
  is removed and the count of its rule decremented. The links of the deleted symbol
  itself are left as they were.
\<close>

definition delete :: "nat \<Rightarrow> state \<Rightarrow> error + state" where
  "delete this st = thenE (symbolAt st this) (\<lambda>s.
     thenE (nonNull (sym_prev s)) (\<lambda>p. thenE (nonNull (sym_next s)) (\<lambda>n.
     thenE (join p n st) (\<lambda>st1. thenE (isGuard st1 this) (\<lambda>g.
     if g then Inr st1
     else thenE (deleteDigram this st1) (\<lambda>st2.
       case sym_rule s of None \<Rightarrow> Inr st2 | Some u \<Rightarrow> decrementReferenceCount u st2))))))"

definition insertAfter :: "nat \<Rightarrow> nat \<Rightarrow> state \<Rightarrow> error + state" where
  "insertAfter this symbol st = thenE (getNext st this) (\<lambda>n. thenE (nonNull n) (\<lambda>b.
     thenE (join symbol b st) (\<lambda>st1. join this symbol st1)))"

text \<open>
  \<^verbatim>\<open>expand\<close>: the table entry of this symbol's digram is cleared if it is this symbol,
  the body of its rule is linked between its neighbours, and the last body symbol is
  stored under its new key.
\<close>

definition expand :: "nat \<Rightarrow> state \<Rightarrow> error + state" where
  "expand this st = thenE (symbolAt st this) (\<lambda>s.
     thenE (nonNull (sym_rule s)) (\<lambda>u.
     thenE (rule_first st u) (\<lambda>first. thenE (rule_last st u) (\<lambda>last.
     thenE (hashValue st this) (\<lambda>k.
     let st1 = (if entry st k = Some this then setIndex k None st else st) in
     thenE (nonNull (sym_prev s)) (\<lambda>left. thenE (nonNull first) (\<lambda>f.
     thenE (join left f st1) (\<lambda>st2.
     thenE (nonNull last) (\<lambda>l. thenE (nonNull (sym_next s)) (\<lambda>right.
     thenE (join l right st2) (\<lambda>st3.
     thenE (hashValue st3 l) (\<lambda>k'. Inr (setIndex k' (Some l) st3)))))))))))))"

subsection \<open>Enforcing the constraints\<close>

text \<open>
  The first four statements of \<^verbatim>\<open>substitute\<close>: with \<^verbatim>\<open>prev = this.prev\<close>, the
  symbol after \<^verbatim>\<open>prev\<close> is deleted twice and a new non-terminal for the rule is
  inserted after \<^verbatim>\<open>prev\<close>. The result is \<^verbatim>\<open>prev\<close> and the new heap.
\<close>

definition replaceDigram :: "nat \<Rightarrow> nat \<Rightarrow> state \<Rightarrow> error + nat \<times> state" where
  "replaceDigram this r st =
     thenE (getPrev st this) (\<lambda>p. thenE (nonNull p) (\<lambda>prev.
     thenE (getNext st prev) (\<lambda>d1. thenE (nonNull d1) (\<lambda>a.
     thenE (delete a st) (\<lambda>st1.
     thenE (getNext st1 prev) (\<lambda>d2. thenE (nonNull d2) (\<lambda>b.
     thenE (delete b st1) (\<lambda>st2.
     thenE (newSymbol (JRule r) st2) (\<lambda>(s, st3).
     thenE (insertAfter prev s st3) (\<lambda>st4. Inr (prev, st4)))))))))))"

text \<open>
  The start of the \<^verbatim>\<open>else\<close> branch of \<^verbatim>\<open>processMatch\<close>: a new rule whose body is a
  copy of this symbol and a copy of its successor.
\<close>

definition buildRule :: "nat \<Rightarrow> state \<Rightarrow> error + nat \<times> state" where
  "buildRule this st =
     thenE (newRule st) (\<lambda>(u, st1).
     thenE (rule_last st1 u) (\<lambda>l1. thenE (nonNull l1) (\<lambda>la.
     thenE (newSymbol (JSymbol this) st1) (\<lambda>(c1, st2).
     thenE (insertAfter la c1 st2) (\<lambda>st3.
     thenE (rule_last st3 u) (\<lambda>l2. thenE (nonNull l2) (\<lambda>lb.
     thenE (getNext st3 this) (\<lambda>tn.
     thenE (newSymbol (case tn of None \<Rightarrow> JNull | Some b \<Rightarrow> JSymbol b) st3) (\<lambda>(c2, st4).
     thenE (insertAfter lb c2 st4) (\<lambda>st5. Inr (u, st5)))))))))))"

text \<open>\<^verbatim>\<open>digramIndex[rule.first().hashValue()] = rule.first()\<close>.\<close>

definition recordFirst :: "nat \<Rightarrow> state \<Rightarrow> error + state" where
  "recordFirst u st = thenE (rule_first st u) (\<lambda>f. thenE (nonNull f) (\<lambda>fa.
     thenE (hashValue st fa) (\<lambda>k. Inr (setIndex k (Some fa) st))))"

text \<open>
  The \<^verbatim>\<open>if\<close>--\<^verbatim>\<open>else\<close> of \<^verbatim>\<open>processMatch\<close>, with \<^verbatim>\<open>substitute\<close> as a parameter:
  the rule whose whole body the match is gets reused; otherwise a new rule is built and
  both occurrences are substituted, the match first. The result is the rule.
\<close>

definition formRule ::
  "(nat \<Rightarrow> nat \<Rightarrow> state \<Rightarrow> error + state) \<Rightarrow> nat \<Rightarrow> nat \<Rightarrow> state \<Rightarrow> error + nat \<times> state" where
  "formRule subst this match st =
     thenE (getPrev st match) (\<lambda>mp. thenE (guardAt st mp) (\<lambda>g1.
     thenE (if g1 then thenE (getNext st match) (\<lambda>mn. thenE (nextOf st mn) (guardAt st))
            else Inr False) (\<lambda>reuse.
     if reuse then
       thenE (nonNull mp) (\<lambda>p. thenE (getRule st p) (\<lambda>r. thenE (nonNull r) (\<lambda>u.
       thenE (subst this u st) (\<lambda>st1. Inr (u, st1)))))
     else
       thenE (buildRule this st) (\<lambda>(u, st5).
       thenE (subst match u st5) (\<lambda>st6.
       thenE (subst this u st6) (\<lambda>st7.
       thenE (recordFirst u st7) (\<lambda>st8. Inr (u, st8))))))))"

text \<open>
  The last statement of \<^verbatim>\<open>processMatch\<close>: if the first symbol of the rule is a
  non-terminal whose rule has count 1, it is expanded.
\<close>

definition expandUnderused :: "nat \<Rightarrow> state \<Rightarrow> error + state" where
  "expandUnderused u st =
     thenE (rule_first st u) (\<lambda>f. thenE (nonNull f) (\<lambda>fa.
     thenE (getRule st fa) (\<lambda>fr.
     case fr of None \<Rightarrow> Inr st
     | Some v \<Rightarrow> thenE (getReferenceCount st v) (\<lambda>c.
         if c = 1 then expand fa st else Inr st))))"

text \<open>
  \<^verbatim>\<open>check\<close>, \<^verbatim>\<open>processMatch\<close> and \<^verbatim>\<open>substitute\<close> call each other; the first
  argument bounds the depth of these calls.

  \<^verbatim>\<open>check\<close> returns \<^verbatim>\<open>0\<close> for a guard or before a guard; records this symbol under
  its key and returns \<^verbatim>\<open>false\<close> when the table has no entry; otherwise returns
  \<^verbatim>\<open>true\<close>, after \<^verbatim>\<open>processMatch\<close> unless the successor of the entry is this symbol.

  \<^verbatim>\<open>substitute\<close> replaces the digram and checks \<^verbatim>\<open>prev\<close> and, if that returned a
  falsy value, \<^verbatim>\<open>prev.next\<close>.
\<close>

fun check :: "nat \<Rightarrow> nat \<Rightarrow> state \<Rightarrow> error + checked \<times> state"
  and processMatch :: "nat \<Rightarrow> nat \<Rightarrow> nat \<Rightarrow> state \<Rightarrow> error + state"
  and substitute :: "nat \<Rightarrow> nat \<Rightarrow> nat \<Rightarrow> state \<Rightarrow> error + state"
where
  "check 0 this st = Inl OutOfFuel"
| "check (Suc n) this st =
     thenE (isGuard st this) (\<lambda>g.
     thenE (if g then Inr True else thenE (getNext st this) (guardAt st)) (\<lambda>g'.
     if g' then Inr (Zero, st)
     else thenE (hashValue st this) (\<lambda>k.
       case entry st k of
         None \<Rightarrow> Inr (False_recorded, setIndex k (Some this) st)
       | Some match \<Rightarrow> thenE (getNext st match) (\<lambda>mn.
           if mn \<noteq> Some this
           then thenE (processMatch n this match st) (\<lambda>st1. Inr (True_matched, st1))
           else Inr (True_matched, st)))))"
| "processMatch 0 this match st = Inl OutOfFuel"
| "processMatch (Suc n) this match st =
     thenE (formRule (substitute n) this match st) (\<lambda>(u, st8). expandUnderused u st8)"
| "substitute 0 this r st = Inl OutOfFuel"
| "substitute (Suc n) this r st =
     thenE (replaceDigram this r st) (\<lambda>(prev, st4).
     thenE (check n prev st4) (\<lambda>(c, st5).
     if \<not> truthy c
     then thenE (getNext st5 prev) (\<lambda>pn. thenE (nonNull pn) (\<lambda>q.
            thenE (check n q st5) (\<lambda>(c', st6). Inr st6)))
     else Inr st5))"

subsection \<open>The driver\<close>

text \<open>
  \<^verbatim>\<open>S.last().insertAfter(new Symbol(input.shift()))\<close>; \<^verbatim>\<open>shift\<close> on an empty array
  returns \<^verbatim>\<open>undefined\<close>.
\<close>

definition appendShift :: "nat \<Rightarrow> string \<Rightarrow> state \<Rightarrow> error + state" where
  "appendShift S input st = thenE (rule_last st S) (\<lambda>l. thenE (nonNull l) (\<lambda>la.
     thenE (newSymbol (case input of [] \<Rightarrow> JUndefined | c # cs \<Rightarrow> JString c) st) (\<lambda>(s, st1).
     insertAfter la s st1)))"

text \<open>
  The body of the loop \<^verbatim>\<open>for (var i = 1; i < position; i++)\<close> of \<^verbatim>\<open>main\<close>, run
  \<open>k\<close> times: append the next input character and check the left neighbour of the
  last symbol.
\<close>

fun feed :: "nat \<Rightarrow> nat \<Rightarrow> nat \<Rightarrow> string \<Rightarrow> state \<Rightarrow> error + state" where
  "feed fuel S 0 input st = Inr st"
| "feed fuel S (Suc k) input st =
     thenE (appendShift S input st) (\<lambda>st1.
     thenE (rule_last st1 S) (\<lambda>l. thenE (prevOf st1 l) (\<lambda>p. thenE (nonNull p) (\<lambda>pa.
     thenE (check fuel pa st1) (\<lambda>(c, st2). feed fuel S k (tl input) st2)))))"

text \<open>
  \<^verbatim>\<open>main\<close>, up to the printing: the table is emptied, the start rule created, the
  first character appended if there is one, and the loop run up to the global
  \<^verbatim>\<open>position\<close>. The result is the start rule and the final heap.
\<close>

definition main :: "nat \<Rightarrow> nat \<Rightarrow> string \<Rightarrow> state \<Rightarrow> error + nat \<times> state" where
  "main fuel position input st0 =
     thenE (newRule (st0\<lparr>digramIndex := []\<rparr>)) (\<lambda>(S, st1).
     thenE (if input \<noteq> [] then appendShift S input st1 else Inr st1) (\<lambda>st2.
     thenE (feed fuel S (position - 1) (tl input) st2) (\<lambda>st3. Inr (S, st3))))"

text \<open>The heap when the page is loaded: no objects, \<^verbatim>\<open>Rule.uniqueRuleNumber = 1\<close>.\<close>

definition pageLoad :: state where
  "pageLoad = \<lparr>symbols = [], rules = [], digramIndex = [],
     uniqueRuleNumber = 1, symbolCount = 0\<rparr>"

text \<open>Feeding a whole string: \<^verbatim>\<open>position\<close> is its length.\<close>

definition sequitur :: "nat \<Rightarrow> string \<Rightarrow> error + nat \<times> state" where
  "sequitur fuel input = main fuel (length input) input pageLoad"

section \<open>Reading a grammar off the heap\<close>

text \<open>
  The traversal of \<^verbatim>\<open>printRule\<close>:
  \<^verbatim>\<open>for (symbol = rule.first(); !symbol.isGuard(); symbol = symbol.getNext())\<close>,
  bounded by the first argument.
\<close>

fun symbolsFrom :: "nat \<Rightarrow> state \<Rightarrow> nat \<Rightarrow> error + nat list" where
  "symbolsFrom 0 st a = Inl OutOfFuel"
| "symbolsFrom (Suc n) st a = thenE (isGuard st a) (\<lambda>g.
     if g then Inr []
     else thenE (getNext st a) (\<lambda>nx. thenE (nonNull nx) (\<lambda>b.
       thenE (symbolsFrom n st b) (\<lambda>rest. Inr (a # rest)))))"

definition ruleSymbols :: "nat \<Rightarrow> state \<Rightarrow> nat \<Rightarrow> error + nat list" where
  "ruleSymbols fuel st u = thenE (rule_first st u) (\<lambda>f. thenE (nonNull f) (symbolsFrom fuel st))"

fun valuesOf :: "state \<Rightarrow> nat list \<Rightarrow> error + val list" where
  "valuesOf st [] = Inr []"
| "valuesOf st (a # as) = thenE (valueOf st a) (\<lambda>v. thenE (valuesOf st as) (\<lambda>vs. Inr (v # vs)))"

definition ruleBody :: "nat \<Rightarrow> state \<Rightarrow> nat \<Rightarrow> error + val list" where
  "ruleBody fuel st u = thenE (ruleSymbols fuel st u) (valuesOf st)"

text \<open>
  Full expansion of a rule: every non-terminal replaced by the expansion of its rule
  (the recursion of \<^verbatim>\<open>printRuleExpansion\<close>, without its separators).
\<close>

fun expansion :: "nat \<Rightarrow> state \<Rightarrow> nat \<Rightarrow> error + string"
  and expansions :: "nat \<Rightarrow> state \<Rightarrow> val list \<Rightarrow> error + string"
where
  "expansion 0 st u = Inl OutOfFuel"
| "expansion (Suc n) st u = thenE (ruleBody (Suc n) st u) (expansions n st)"
| "expansions n st [] = Inr []"
| "expansions n st (v # vs) =
     thenE (case v of VTerminal c \<Rightarrow> Inr [c] | VRule r \<Rightarrow> expansion n st r | VNull \<Rightarrow> Inl TypeError)
       (\<lambda>x. thenE (expansions n st vs) (\<lambda>y. Inr (x @ y)))"

text \<open>The rules a body refers to, and the rules reachable from the start rule.\<close>

fun rulesIn :: "val list \<Rightarrow> nat list" where
  "rulesIn [] = []"
| "rulesIn (VRule r # vs) = r # rulesIn vs"
| "rulesIn (v # vs) = rulesIn vs"

fun reach :: "nat \<Rightarrow> state \<Rightarrow> nat list \<Rightarrow> nat list \<Rightarrow> error + nat list" where
  "reach 0 st seen todo = (if todo = [] then Inr seen else Inl OutOfFuel)"
| "reach (Suc n) st seen [] = Inr seen"
| "reach (Suc n) st seen (u # us) =
     (if u \<in> set seen then reach n st seen us
      else thenE (ruleBody (Suc n) st u) (\<lambda>b. reach n st (seen @ [u]) (us @ rulesIn b)))"

definition grammarRules :: "nat \<Rightarrow> state \<Rightarrow> nat \<Rightarrow> error + nat list" where
  "grammarRules fuel st S = reach fuel st [] [S]"

text \<open>
  A listing of rules: each with its stored reference count and its body. A rule's
  digrams: the key of each body symbol that has a successor in the body, the symbol,
  and the table entry under that key.
\<close>

fun listings :: "nat \<Rightarrow> state \<Rightarrow> nat list \<Rightarrow> error + (nat \<times> int \<times> val list) list" where
  "listings fuel st [] = Inr []"
| "listings fuel st (u # us) =
     thenE (getReferenceCount st u) (\<lambda>c. thenE (ruleBody fuel st u) (\<lambda>b.
     thenE (listings fuel st us) (\<lambda>r. Inr ((u, c, b) # r))))"

fun digramEntries :: "state \<Rightarrow> nat list \<Rightarrow> error + (string \<times> nat \<times> nat option) list" where
  "digramEntries st (a # b # as) =
     thenE (hashValue st a) (\<lambda>k. thenE (digramEntries st (b # as)) (\<lambda>r.
     Inr ((k, a, entry st k) # r)))"
| "digramEntries st as = Inr []"

fun allDigrams :: "nat \<Rightarrow> state \<Rightarrow> nat list \<Rightarrow> error + (string \<times> nat \<times> nat option) list" where
  "allDigrams fuel st [] = Inr []"
| "allDigrams fuel st (u # us) =
     thenE (ruleSymbols fuel st u) (\<lambda>as. thenE (digramEntries st as) (\<lambda>d.
     thenE (allDigrams fuel st us) (\<lambda>r. Inr (d @ r))))"

fun allSymbols :: "nat \<Rightarrow> state \<Rightarrow> nat list \<Rightarrow> error + (nat \<times> nat list) list" where
  "allSymbols fuel st [] = Inr []"
| "allSymbols fuel st (u # us) =
     thenE (ruleSymbols fuel st u) (\<lambda>as. thenE (allSymbols fuel st us) (\<lambda>r. Inr ((u, as) # r)))"

text \<open>
  Every Rule object created so far, reachable or not: its number, its stored count and
  the two links of its guard.
\<close>

definition ruleObjects :: "state \<Rightarrow> (nat \<times> int \<times> nat option \<times> nat option) list" where
  "ruleObjects st = List.map_filter (\<lambda>(u, r).
     case map_of (symbols st) (guard r) of None \<Rightarrow> None
     | Some g \<Rightarrow> Some (u, referenceCount r, sym_next g, sym_prev g)) (rules st)"

text \<open>The number of non-terminals in a listing that refer to rule \<open>u\<close>.\<close>

definition references :: "nat \<Rightarrow> (nat \<times> int \<times> val list) list \<Rightarrow> nat" where
  "references u g = length (filter (\<lambda>v. v = VRule u) (concat (map (\<lambda>(r, c, b). b) g)))"

record report =
  start :: nat
  grammar :: "(nat \<times> int \<times> val list) list"
  expanded :: string
  digrams :: "(string \<times> nat \<times> nat option) list"
  bodies :: "(nat \<times> nat list) list"
  objects :: "(nat \<times> int \<times> nat option \<times> nat option) list"

definition describe :: "nat \<Rightarrow> state \<Rightarrow> nat \<Rightarrow> error + report" where
  "describe fuel st S =
     thenE (grammarRules fuel st S) (\<lambda>us. thenE (listings fuel st us) (\<lambda>g.
     thenE (expansion fuel st S) (\<lambda>x. thenE (allDigrams fuel st us) (\<lambda>d.
     thenE (allSymbols fuel st us) (\<lambda>b.
     Inr \<lparr>start = S, grammar = g, expanded = x, digrams = d, bodies = b,
          objects = ruleObjects st\<rparr>)))))"

text \<open>The grammar built for a whole input string.\<close>

definition run :: "nat \<Rightarrow> string \<Rightarrow> error + report" where
  "run fuel input = thenE (sequitur fuel input) (\<lambda>(S, st). describe fuel st S)"

section \<open>The wording of the specification, and sample states\<close>

text \<open>
  \<^verbatim>\<open>substitute\<close> as the specification words it: the digram with the right neighbour is
  checked if and only if the check of the left neighbour recorded a new digram.
\<close>

definition substitute_claimed :: "nat \<Rightarrow> nat \<Rightarrow> nat \<Rightarrow> state \<Rightarrow> error + state" where
  "substitute_claimed n this r st =
     thenE (replaceDigram this r st) (\<lambda>(prev, st4).
     thenE (check n prev st4) (\<lambda>(c, st5).
     if c = False_recorded
     then thenE (getNext st5 prev) (\<lambda>pn. thenE (nonNull pn) (\<lambda>q.
            thenE (check n q st5) (\<lambda>(c', st6). Inr st6)))
     else Inr st5))"

text \<open>
  \<^verbatim>\<open>expand\<close> as the specification words it: after the body is spliced in, a final
  \<^verbatim>\<open>check\<close> is performed on the boundary digram, the last body symbol with its new
  successor.
\<close>

definition expand_claimed :: "nat \<Rightarrow> nat \<Rightarrow> state \<Rightarrow> error + state" where
  "expand_claimed n this st = thenE (symbolAt st this) (\<lambda>s.
     thenE (nonNull (sym_rule s)) (\<lambda>u.
     thenE (rule_first st u) (\<lambda>first. thenE (rule_last st u) (\<lambda>last.
     thenE (hashValue st this) (\<lambda>k.
     let st1 = (if entry st k = Some this then setIndex k None st else st) in
     thenE (nonNull (sym_prev s)) (\<lambda>left. thenE (nonNull first) (\<lambda>f.
     thenE (join left f st1) (\<lambda>st2.
     thenE (nonNull last) (\<lambda>l. thenE (nonNull (sym_next s)) (\<lambda>right.
     thenE (join l right st2) (\<lambda>st3.
     thenE (check n l st3) (\<lambda>(c, st4). Inr st4))))))))))))"

text \<open>
  The heap in the middle of a step of the driver: the input has been fed, one more
  terminal has been appended, and its left neighbour has not been checked yet.
\<close>

definition pending :: "string \<Rightarrow> char \<Rightarrow> error + nat \<times> state" where
  "pending input c = thenE (sequitur 50 input) (\<lambda>(S, st).
     thenE (appendShift S [c] st) (\<lambda>st1. Inr (S, st1)))"

text \<open>
  Input \<^verbatim>\<open>abab\<close>, inside the check of the second \<^verbatim>\<open>a\<close> (symbol 3) against the entry at
  the first (symbol 1): the new rule 2 has been built, no occurrence substituted yet; and
  the heap after the first of the two substitutions.
\<close>

definition ababBuilt :: "error + nat \<times> state" where
  "ababBuilt = thenE (pending ''aba'' CHR ''b'') (\<lambda>(S, st). buildRule 3 st)"

definition ababOnce :: "error + nat \<times> state" where
  "ababOnce = thenE ababBuilt (\<lambda>(u, st). thenE (substitute 50 1 u st) (\<lambda>st1. Inr (u, st1)))"

text \<open>
  Inputs \<^verbatim>\<open>abcabc\<close> and \<^verbatim>\<open>aaabbabaab\<close>, inside the last check: \<^verbatim>\<open>processMatch\<close> has
  formed its rule and is about to look for an underused rule.
\<close>

definition abcabcFormed :: "error + nat \<times> state" where
  "abcabcFormed = thenE (pending ''abcab'' CHR ''c'') (\<lambda>(S, st). formRule (substitute 48) 10 9 st)"

definition aaabbabaabFormed :: "error + nat \<times> state" where
  "aaabbabaabFormed =
     thenE (pending ''aaabbabaa'' CHR ''b'') (\<lambda>(S, st). formRule (substitute 48) 19 18 st)"

text \<open>
  Input \<^verbatim>\<open>abcbbabbabbb\<close>, inside the last check, of symbol 22 against the entry at
  symbol 5: rule 4 has been built, and \<^verbatim>\<open>substitute\<close> on symbol 5, whose \<^verbatim>\<open>prev\<close> is
  symbol 4, has done the first of its two deletes, of symbol 20. The successor of symbol
  4 is now symbol 21, a non-terminal of rule 3.
\<close>

definition abcbbabbabbbCut :: "error + state" where
  "abcbbabbabbbCut = thenE (pending ''abcbbabbabb'' CHR ''b'') (\<lambda>(S, st).
     thenE (buildRule 22 st) (\<lambda>(u, st5). delete 20 st5))"

section \<open>Evaluation\<close>

text \<open>
  Runs on concrete inputs are evaluated by rewriting. The rules below unfold each
  operation on an explicit heap; the congruence rules keep the rewriting on the
  arguments that an operation computes with and off the heap it is applied to, which
  is always fully evaluated when it is passed on.
\<close>

lemma thenE_Inl: "thenE (Inl e) f = Inl e"
  by (simp add: thenE_def)

lemma thenE_Inr: "thenE (Inr x) f = f x"
  by (simp add: thenE_def)

lemma thenE_weak_cong: "m = m' \<Longrightarrow> thenE m f = thenE m' f"
  by simp

lemma thenE_InrD: "thenE m f = Inr y \<Longrightarrow> \<exists>x. m = Inr x \<and> f x = Inr y"
  by (cases m) (simp_all add: thenE_def)

lemma map_of_Cons_at: "map_of ((k', v) # ps) k = (if k = k' then Some v else map_of ps k)"
  by simp

lemma map_of_Nil_at: "map_of [] k = None"
  by simp

lemma map_of_key_cong: "k = k' \<Longrightarrow> map_of ps k = map_of ps k'"
  by simp

lemma update_key_cong: "k = k' \<Longrightarrow> v = v' \<Longrightarrow> AList.update k v ps = AList.update k' v' ps"
  by simp

lemma state_congs:
  "a = a' \<Longrightarrow> symbolAt st a = symbolAt st a'"
  "a = a' \<Longrightarrow> ruleObject st a = ruleObject st a'"
  "a = a' \<Longrightarrow> getNext st a = getNext st a'"
  "a = a' \<Longrightarrow> getPrev st a = getPrev st a'"
  "a = a' \<Longrightarrow> getRule st a = getRule st a'"
  "a = a' \<Longrightarrow> getTerminal st a = getTerminal st a'"
  "r = r' \<Longrightarrow> nextOf st r = nextOf st r'"
  "r = r' \<Longrightarrow> prevOf st r = prevOf st r'"
  "a = a' \<Longrightarrow> rule_first st a = rule_first st a'"
  "a = a' \<Longrightarrow> rule_last st a = rule_last st a'"
  "a = a' \<Longrightarrow> getReferenceCount st a = getReferenceCount st a'"
  "a = a' \<Longrightarrow> incrementReferenceCount a st = incrementReferenceCount a' st"
  "a = a' \<Longrightarrow> decrementReferenceCount a st = decrementReferenceCount a' st"
  "a = a' \<Longrightarrow> isGuard st a = isGuard st a'"
  "r = r' \<Longrightarrow> guardAt st r = guardAt st r'"
  "a = a' \<Longrightarrow> valueOf st a = valueOf st a'"
  "a = a' \<Longrightarrow> stringValue st a = stringValue st a'"
  "a = a' \<Longrightarrow> hashValue st a = hashValue st a'"
  "s = s' \<Longrightarrow> allocate s st = allocate s' st"
  "v = v' \<Longrightarrow> newSymbol v st = newSymbol v' st"
  "a = a' \<Longrightarrow> r = r' \<Longrightarrow> setNext a r st = setNext a' r' st"
  "a = a' \<Longrightarrow> r = r' \<Longrightarrow> setPrev a r st = setPrev a' r' st"
  "k = k' \<Longrightarrow> r = r' \<Longrightarrow> setIndex k r st = setIndex k' r' st"
  "k = k' \<Longrightarrow> entry st k = entry st k'"
  "a = a' \<Longrightarrow> deleteDigram a st = deleteDigram a' st"
  "a = a' \<Longrightarrow> tripleCentre st a = tripleCentre st a'"
  "a = a' \<Longrightarrow> b = b' \<Longrightarrow> join a b st = join a' b' st"
  "newRule st = newRule st"
  "a = a' \<Longrightarrow> delete a st = delete a' st"
  "a = a' \<Longrightarrow> b = b' \<Longrightarrow> insertAfter a b st = insertAfter a' b' st"
  "a = a' \<Longrightarrow> expand a st = expand a' st"
  "a = a' \<Longrightarrow> b = b' \<Longrightarrow>
     replaceDigram a b st = replaceDigram a' b' st"
  "a = a' \<Longrightarrow> buildRule a st = buildRule a' st"
  "a = a' \<Longrightarrow> recordFirst a st = recordFirst a' st"
  "f = f' \<Longrightarrow> a = a' \<Longrightarrow> b = b' \<Longrightarrow>
     formRule f a b st = formRule f' a' b' st"
  "a = a' \<Longrightarrow> expandUnderused a st = expandUnderused a' st"
  "a = a' \<Longrightarrow> b = b' \<Longrightarrow> check a b st = check a' b' st"
  "a = a' \<Longrightarrow> b = b' \<Longrightarrow> c = c' \<Longrightarrow>
     processMatch a b c st = processMatch a' b' c' st"
  "a = a' \<Longrightarrow> b = b' \<Longrightarrow> c = c' \<Longrightarrow>
     substitute a b c st = substitute a' b' c' st"
  "a = a' \<Longrightarrow> k = k' \<Longrightarrow> appendShift a k st = appendShift a' k' st"
  "a = a' \<Longrightarrow> b = b' \<Longrightarrow> c = c' \<Longrightarrow> k = k' \<Longrightarrow>
     feed a b c k st = feed a' b' c' k' st"
  "a = a' \<Longrightarrow> b = b' \<Longrightarrow> symbolsFrom a st b = symbolsFrom a' st b'"
  "a = a' \<Longrightarrow> b = b' \<Longrightarrow> ruleSymbols a st b = ruleSymbols a' st b'"
  "as = as' \<Longrightarrow> valuesOf st as = valuesOf st as'"
  "a = a' \<Longrightarrow> b = b' \<Longrightarrow> ruleBody a st b = ruleBody a' st b'"
  "a = a' \<Longrightarrow> b = b' \<Longrightarrow> expansion a st b = expansion a' st b'"
  "a = a' \<Longrightarrow> vs = vs' \<Longrightarrow>
     expansions a st vs = expansions a' st vs'"
  "a = a' \<Longrightarrow> as = as' \<Longrightarrow> bs = bs' \<Longrightarrow>
     reach a st as bs = reach a' st as' bs'"
  "a = a' \<Longrightarrow> b = b' \<Longrightarrow>
     grammarRules a st b = grammarRules a' st b'"
  "a = a' \<Longrightarrow> as = as' \<Longrightarrow> listings a st as = listings a' st as'"
  "as = as' \<Longrightarrow> digramEntries st as = digramEntries st as'"
  "a = a' \<Longrightarrow> as = as' \<Longrightarrow>
     allDigrams a st as = allDigrams a' st as'"
  "a = a' \<Longrightarrow> as = as' \<Longrightarrow>
     allSymbols a st as = allSymbols a' st as'"
  "ruleObjects st = ruleObjects st"
  "a = a' \<Longrightarrow> b = b' \<Longrightarrow> describe a st b = describe a' st b'"
  by simp_all

lemma symbolAt_eval:
  "symbolAt
    \<lparr>symbols = L, rules = R, digramIndex = I,
     uniqueRuleNumber = u, symbolCount = c\<rparr> a =
   nonNull (map_of L a)"
  by (simp add: symbolAt_def)

lemma ruleObject_eval:
  "ruleObject
    \<lparr>symbols = L, rules = R, digramIndex = I,
     uniqueRuleNumber = u, symbolCount = c\<rparr> a =
   nonNull (map_of R a)"
  by (simp add: ruleObject_def)

lemma entry_eval:
  "entry
    \<lparr>symbols = L, rules = R, digramIndex = I,
     uniqueRuleNumber = u, symbolCount = c\<rparr> k =
   (case map_of I k of Some (Some a) \<Rightarrow> Some a | _ \<Rightarrow> None)"
  by (simp add: entry_def)

lemma setIndex_eval:
  "setIndex k v
    \<lparr>symbols = L, rules = R, digramIndex = I,
     uniqueRuleNumber = u, symbolCount = c\<rparr> =
    \<lparr>symbols = L, rules = R, digramIndex = AList.update k v I,
     uniqueRuleNumber = u, symbolCount = c\<rparr>"
  by (simp add: setIndex_def)

lemma setNext_eval:
  "setNext a v
    \<lparr>symbols = L, rules = R, digramIndex = I,
     uniqueRuleNumber = u, symbolCount = c\<rparr> =
   thenE (nonNull (map_of L a)) (\<lambda>s. Inr
    \<lparr>symbols = AList.update a (s\<lparr>sym_next := v\<rparr>) L,
     rules = R,
     digramIndex = I,
     uniqueRuleNumber = u, symbolCount = c\<rparr>)"
  by (simp add: setNext_def symbolAt_def)

lemma setPrev_eval:
  "setPrev a v
    \<lparr>symbols = L, rules = R, digramIndex = I,
     uniqueRuleNumber = u, symbolCount = c\<rparr> =
   thenE (nonNull (map_of L a)) (\<lambda>s. Inr
    \<lparr>symbols = AList.update a (s\<lparr>sym_prev := v\<rparr>) L,
     rules = R,
     digramIndex = I,
     uniqueRuleNumber = u, symbolCount = c\<rparr>)"
  by (simp add: setPrev_def symbolAt_def)

lemma incrementReferenceCount_eval:
  "incrementReferenceCount a
    \<lparr>symbols = L, rules = R, digramIndex = I,
     uniqueRuleNumber = u, symbolCount = c\<rparr> =
   thenE (nonNull (map_of R a)) (\<lambda>r. Inr
    \<lparr>symbols = L,
     rules = AList.update a (r\<lparr>referenceCount := referenceCount r + 1\<rparr>) R,
     digramIndex = I,
     uniqueRuleNumber = u, symbolCount = c\<rparr>)"
  by (simp add: incrementReferenceCount_def ruleObject_def)

lemma decrementReferenceCount_eval:
  "decrementReferenceCount a
    \<lparr>symbols = L, rules = R, digramIndex = I,
     uniqueRuleNumber = u, symbolCount = c\<rparr> =
   thenE (nonNull (map_of R a)) (\<lambda>r. Inr
    \<lparr>symbols = L,
     rules = AList.update a (r\<lparr>referenceCount := referenceCount r - 1\<rparr>) R,
     digramIndex = I,
     uniqueRuleNumber = u, symbolCount = c\<rparr>)"
  by (simp add: decrementReferenceCount_def ruleObject_def)

lemma allocate_eval:
  "allocate s
    \<lparr>symbols = L, rules = R, digramIndex = I,
     uniqueRuleNumber = u, symbolCount = c\<rparr> =
   (c,
    \<lparr>symbols = AList.update c s L, rules = R, digramIndex = I,
     uniqueRuleNumber = u, symbolCount = c + 1\<rparr>)"
  by (simp add: allocate_def)

lemma newRule_eval:
  "newRule
    \<lparr>symbols = L, rules = R, digramIndex = I,
     uniqueRuleNumber = u, symbolCount = c\<rparr> =
   thenE (Inr
    \<lparr>symbols = AList.update c (blank\<lparr>sym_rule := Some u\<rparr>) L,
     rules = AList.update u \<lparr>guard = c, referenceCount = 0\<rparr> R,
     digramIndex = I,
     uniqueRuleNumber = u + 1, symbolCount = c + 1\<rparr>)
    (\<lambda>st2. thenE (join c c st2) (\<lambda>st3. Inr (u, st3)))"
  by (simp add: newRule_def allocate_def thenE_Inr)

lemma main_eval: "main fuel position input st0 =
     thenE (Inr (st0\<lparr>digramIndex := []\<rparr>)) (\<lambda>st. thenE (newRule st) (\<lambda>(S, st1).
     thenE (if input \<noteq> [] then appendShift S input st1 else Inr st1) (\<lambda>st2.
     thenE (feed fuel S (position - 1) (tl input) st2) (\<lambda>st3. Inr (S, st3)))))"
  by (simp add: main_def thenE_Inr)

lemma expand_eval: "expand this st = thenE (symbolAt st this) (\<lambda>s.
     thenE (nonNull (sym_rule s)) (\<lambda>u.
     thenE (rule_first st u) (\<lambda>first. thenE (rule_last st u) (\<lambda>last.
     thenE (hashValue st this) (\<lambda>k.
     thenE (Inr (if entry st k = Some this then setIndex k None st else st)) (\<lambda>st1.
     thenE (nonNull (sym_prev s)) (\<lambda>left. thenE (nonNull first) (\<lambda>f.
     thenE (join left f st1) (\<lambda>st2.
     thenE (nonNull last) (\<lambda>l. thenE (nonNull (sym_next s)) (\<lambda>right.
     thenE (join l right st2) (\<lambda>st3.
     thenE (hashValue st3 l) (\<lambda>k'. Inr (setIndex k' (Some l) st3))))))))))))))"
  by (simp add: expand_def thenE_Inr Let_def)

lemma ruleObjects_eval:
  "ruleObjects
    \<lparr>symbols = L, rules = R, digramIndex = I,
     uniqueRuleNumber = u, symbolCount = c\<rparr> =
   List.map_filter (\<lambda>(u, r).
     case map_of L (guard r) of None \<Rightarrow> None
     | Some g \<Rightarrow> Some (u, referenceCount r, sym_next g, sym_prev g)) R"
  by (simp add: ruleObjects_def)

lemmas check_numeral = check.simps(2)[of "pred_numeral k" for k, folded numeral_eq_Suc]
lemmas processMatch_numeral = processMatch.simps(2)[of "pred_numeral k" for k, folded numeral_eq_Suc]
lemmas substitute_numeral = substitute.simps(2)[of "pred_numeral k" for k, folded numeral_eq_Suc]
lemmas feed_numeral = feed.simps(2)[of _ _ "pred_numeral k" for k, folded numeral_eq_Suc]
lemmas symbolsFrom_numeral = symbolsFrom.simps(2)[of "pred_numeral k" for k, folded numeral_eq_Suc]
lemmas expansion_numeral = expansion.simps(2)[of "pred_numeral k" for k, folded numeral_eq_Suc]
lemmas reach_numeral = reach.simps(2,3)[of "pred_numeral k" for k, folded numeral_eq_Suc]

lemmas eval_rules = thenE_Inl thenE_Inr check_numeral processMatch_numeral substitute_numeral
  feed_numeral symbolsFrom_numeral expansion_numeral reach_numeral
  nonNull_def symbolAt_eval ruleObject_eval getNext_def getPrev_def getRule_def getTerminal_def
  nextOf_def prevOf_def rule_first_def rule_last_def getReferenceCount_def
  incrementReferenceCount_eval decrementReferenceCount_eval isGuard_def guardAt_def valueOf_def
  stringValue_def hashValue_def allocate_eval blank_def newSymbol_def setNext_eval setPrev_eval
  setIndex_eval deleteDigram_def tripleCentre_def join_def newRule_eval delete_def
  insertAfter_def expand_eval replaceDigram_def buildRule_def recordFirst_def formRule_def
  expandUnderused_def appendShift_def main_eval pageLoad_def sequitur_def ruleSymbols_def
  ruleBody_def grammarRules_def truthy_def numberToString.simps
  ruleObjects_eval describe_def run_def List.map_filter_def entry_eval
  map_of_Cons_at map_of_Nil_at

lemmas eval_congs = thenE_weak_cong map_of_key_cong update_key_cong state_congs

section \<open>What the linking operations leave unchanged\<close>

lemma setIndex_frame [simp]:
  "symbols (setIndex k v st) = symbols st" "rules (setIndex k v st) = rules st"
  "entry (setIndex k v st) k = v"
  by (simp_all add: setIndex_def entry_def update_conv' split: option.splits)

text \<open>Reading links, rules and keys depends on the objects only, not on the table.\<close>

lemma readers_frame:
  assumes "symbols st' = symbols st" "rules st' = rules st"
  shows "symbolAt st' = symbolAt st" "ruleObject st' = ruleObject st" "getNext st' = getNext st"
    "getPrev st' = getPrev st" "getRule st' = getRule st" "rule_first st' = rule_first st"
    "rule_last st' = rule_last st" "getReferenceCount st' = getReferenceCount st"
    "isGuard st' = isGuard st" "guardAt st' = guardAt st" "stringValue st' = stringValue st"
    "hashValue st' = hashValue st" "valueOf st' = valueOf st"
proof -
  show 1: "symbolAt st' = symbolAt st" using assms by (simp add: symbolAt_def fun_eq_iff)
  show 2: "ruleObject st' = ruleObject st" using assms by (simp add: ruleObject_def fun_eq_iff)
  show 3: "getNext st' = getNext st" by (simp add: getNext_def fun_eq_iff 1)
  show 4: "getPrev st' = getPrev st" by (simp add: getPrev_def fun_eq_iff 1)
  show 5: "getRule st' = getRule st" by (simp add: getRule_def fun_eq_iff 1)
  show 6: "rule_first st' = rule_first st" by (simp add: rule_first_def fun_eq_iff 2 3)
  show "rule_last st' = rule_last st" by (simp add: rule_last_def fun_eq_iff 2 4)
  show "getReferenceCount st' = getReferenceCount st"
    by (simp add: getReferenceCount_def fun_eq_iff 2)
  show 7: "isGuard st' = isGuard st"
    by (simp add: isGuard_def fun_eq_iff 5 6 prevOf_def 4 cong: option.case_cong)
  show "guardAt st' = guardAt st" by (simp add: guardAt_def fun_eq_iff 7)
  show 8: "stringValue st' = stringValue st" by (simp add: stringValue_def fun_eq_iff 1)
  show "hashValue st' = hashValue st" by (simp add: hashValue_def fun_eq_iff 8 3)
  show "valueOf st' = valueOf st" by (simp add: valueOf_def fun_eq_iff 1)
qed

lemma deleteDigram_frame:
  assumes "deleteDigram a st = Inr st'"
  shows "symbols st' = symbols st \<and> rules st' = rules st"
  using assms
  by (auto simp: deleteDigram_def dest!: thenE_InrD split: if_splits)

lemma setNext_result:
  assumes "setNext a v st = Inr st'"
  shows "\<exists>s. map_of (symbols st) a = Some s \<and>
           st' = st\<lparr>symbols := AList.update a (s\<lparr>sym_next := v\<rparr>) (symbols st)\<rparr>"
  using assms
  by (auto simp: setNext_def symbolAt_def nonNull_def dest!: thenE_InrD split: option.splits)

lemma setPrev_result:
  assumes "setPrev a v st = Inr st'"
  shows "\<exists>s. map_of (symbols st) a = Some s \<and>
           st' = st\<lparr>symbols := AList.update a (s\<lparr>sym_prev := v\<rparr>) (symbols st)\<rparr>"
  using assms
  by (auto simp: setPrev_def symbolAt_def nonNull_def dest!: thenE_InrD split: option.splits)

text \<open>
  \<^verbatim>\<open>join\<close> changes no Rule object, no rule or terminal of a Symbol and no Symbol other
  than the two it is given; afterwards the two symbols are linked.
\<close>

lemma join_frame:
  assumes "join this right st = Inr st'"
  shows "rules st' = rules st"
    and "getNext st' this = Inr (Some right)"
    and "getPrev st' right = Inr (Some this)"
    and "map_option sym_rule (map_of (symbols st') x) = map_option sym_rule (map_of (symbols st) x)"
    and "x \<noteq> this \<Longrightarrow> x \<noteq> right \<Longrightarrow> map_of (symbols st') x = map_of (symbols st) x"
proof -
  from assms obtain n st3 st4 where
    n: "getNext st this = Inr n" and
    st3: "(if n \<noteq> None then
              thenE (deleteDigram this st) (\<lambda>st1.
              thenE (tripleCentre st1 right) (\<lambda>tr.
              thenE (if tr then thenE (hashValue st1 right) (\<lambda>k. Inr (setIndex k (Some right) st1))
                     else Inr st1) (\<lambda>st2.
              thenE (tripleCentre st2 this) (\<lambda>tl.
              if tl then thenE (hashValue st2 this) (\<lambda>k. Inr (setIndex k (Some this) st2))
              else Inr st2))))
            else Inr st) = Inr st3" and
    st4: "setNext this (Some right) st3 = Inr st4" and
    st': "setPrev right (Some this) st4 = Inr st'"
    unfolding join_def by (blast dest!: thenE_InrD)
  have f3: "symbols st3 = symbols st \<and> rules st3 = rules st"
    using st3 by (auto dest!: thenE_InrD deleteDigram_frame split: if_splits)
  from setNext_result[OF st4] obtain s where
    s: "map_of (symbols st3) this = Some s" and
    e4: "st4 = st3\<lparr>symbols := AList.update this (s\<lparr>sym_next := Some right\<rparr>) (symbols st3)\<rparr>"
    by blast
  from setPrev_result[OF st'] obtain t where
    t: "map_of (symbols st4) right = Some t" and
    e': "st' = st4\<lparr>symbols := AList.update right (t\<lparr>sym_prev := Some this\<rparr>) (symbols st4)\<rparr>"
    by blast
  show "rules st' = rules st" using e4 e' f3 by simp
  show "getNext st' this = Inr (Some right)"
    using s t e4 e' by (auto simp: getNext_def symbolAt_def nonNull_def thenE_def update_conv')
  show "getPrev st' right = Inr (Some this)"
    using s t e4 e' by (auto simp: getPrev_def symbolAt_def nonNull_def thenE_def update_conv')
  show "map_option sym_rule (map_of (symbols st') x) = map_option sym_rule (map_of (symbols st) x)"
    using s t e4 e' f3 by (auto simp: update_conv' split: if_splits)
  show "x \<noteq> this \<Longrightarrow> x \<noteq> right \<Longrightarrow> map_of (symbols st') x = map_of (symbols st) x"
    using s t e4 e' f3 by (auto simp: update_conv')
qed

lemma insertAfter_frame:
  assumes "insertAfter this s st = Inr st'"
  shows "rules st' = rules st"
    and "getNext st' this = Inr (Some s)"
    and "getPrev st' s = Inr (Some this)"
    and "map_option sym_rule (map_of (symbols st') x) = map_option sym_rule (map_of (symbols st) x)"
proof -
  from assms obtain b st1 where j1: "join s b st = Inr st1" and j2: "join this s st1 = Inr st'"
    unfolding insertAfter_def by (blast dest!: thenE_InrD)
  show "rules st' = rules st" using join_frame(1)[OF j1] join_frame(1)[OF j2] by simp
  show "getNext st' this = Inr (Some s)" by (rule join_frame(2)[OF j2])
  show "getPrev st' s = Inr (Some this)" by (rule join_frame(3)[OF j2])
  show "map_option sym_rule (map_of (symbols st') x) = map_option sym_rule (map_of (symbols st) x)"
    using join_frame(4)[OF j1] join_frame(4)[OF j2] by simp
qed

text \<open>
  \<^verbatim>\<open>delete\<close> joins the neighbours of the symbol; unless the symbol is then a guard, the
  count of its rule, if it has one, goes down by one. Nothing else changes in a Rule
  object.
\<close>

lemma delete_result:
  assumes "delete this st = Inr st'"
  shows "\<exists>s p n sj g. symbolAt st this = Inr s \<and> sym_prev s = Some p \<and> sym_next s = Some n \<and>
     join p n st = Inr sj \<and> isGuard sj this = Inr g \<and> symbols st' = symbols sj \<and>
     (if g then rules st' = rules st
      else case sym_rule s of None \<Rightarrow> rules st' = rules st
           | Some u \<Rightarrow> \<exists>r. map_of (rules st) u = Some r \<and>
               rules st' = AList.update u (r\<lparr>referenceCount := referenceCount r - 1\<rparr>) (rules st))"
proof -
  from assms obtain s p n sj g where
    s: "symbolAt st this = Inr s" and p: "sym_prev s = Some p" and n: "sym_next s = Some n" and
    j: "join p n st = Inr sj" and g: "isGuard sj this = Inr g" and
    r: "(if g then Inr sj
         else thenE (deleteDigram this sj) (\<lambda>st2.
           case sym_rule s of None \<Rightarrow> Inr st2 | Some u \<Rightarrow> decrementReferenceCount u st2)) = Inr st'"
    unfolding delete_def nonNull_def by (auto dest!: thenE_InrD split: option.splits)
  have rj: "rules sj = rules st" by (rule join_frame(1)[OF j])
  have "symbols st' = symbols sj \<and>
     (if g then rules st' = rules st
      else case sym_rule s of None \<Rightarrow> rules st' = rules st
           | Some u \<Rightarrow> \<exists>r. map_of (rules st) u = Some r \<and>
               rules st' = AList.update u (r\<lparr>referenceCount := referenceCount r - 1\<rparr>) (rules st))"
  proof (cases g)
    case True
    with r rj show ?thesis by simp
  next
    case False
    with r obtain st2 where d: "deleteDigram this sj = Inr st2" and
      c: "(case sym_rule s of None \<Rightarrow> Inr st2 | Some u \<Rightarrow> decrementReferenceCount u st2) = Inr st'"
      by (auto dest!: thenE_InrD)
    from deleteDigram_frame[OF d] rj have f2: "symbols st2 = symbols sj" "rules st2 = rules st"
      by simp_all
    show ?thesis
    proof (cases "sym_rule s")
      case None
      with c f2 False show ?thesis by simp
    next
      case (Some u)
      with c have "decrementReferenceCount u st2 = Inr st'" by simp
      then obtain r where "map_of (rules st2) u = Some r"
        "st' = st2\<lparr>rules := AList.update u (r\<lparr>referenceCount := referenceCount r - 1\<rparr>) (rules st2)\<rparr>"
        unfolding decrementReferenceCount_def ruleObject_def nonNull_def
        by (auto dest!: thenE_InrD split: option.splits)
      with f2 Some False show ?thesis by simp
    qed
  qed
  with s p n j g show ?thesis by blast
qed

lemma newSymbol_JRule:
  assumes "newSymbol (JRule r) st = Inr (s, st')"
  shows "map_option sym_rule (map_of (symbols st') s) = Some (Some r)"
  using assms
  by (auto simp: newSymbol_def allocate_def incrementReferenceCount_def blank_def update_conv'
      dest!: thenE_InrD)

text \<open>
  After the first four statements of \<^verbatim>\<open>substitute\<close>, the successor of \<^verbatim>\<open>prev\<close> is
  a non-terminal of the rule, and its predecessor is \<^verbatim>\<open>prev\<close>.
\<close>

lemma replaceDigram_result:
  assumes "replaceDigram this r st = Inr (prev, st4)"
  shows "\<exists>s. getNext st4 prev = Inr (Some s) \<and> getPrev st4 s = Inr (Some prev) \<and>
           getRule st4 s = Inr (Some r)"
proof -
  from assms obtain st2 s st3 where
    n: "newSymbol (JRule r) st2 = Inr (s, st3)" and i: "insertAfter prev s st3 = Inr st4"
    unfolding replaceDigram_def nonNull_def
    by (auto dest!: thenE_InrD split: option.splits)
  have "map_option sym_rule (map_of (symbols st4) s) = Some (Some r)"
    using insertAfter_frame(4)[OF i] newSymbol_JRule[OF n] by simp
  then have "getRule st4 s = Inr (Some r)"
    by (auto simp: getRule_def symbolAt_def nonNull_def thenE_def)
  with insertAfter_frame(2,3)[OF i] show ?thesis by blast
qed


lemma expand_result:
  assumes "expand this st = Inr st'"
  shows "rules st' = rules st"
    and "\<exists>u l k right. getRule st this = Inr (Some u) \<and> rule_last st u = Inr (Some l) \<and>
           getNext st this = Inr (Some right) \<and> getNext st' l = Inr (Some right) \<and>
           hashValue st' l = Inr k \<and> entry st' k = Some l"
proof -
  from assms obtain s u last k left f st2 l right st3 k' where
    s: "symbolAt st this = Inr s" and u: "sym_rule s = Some u" and
    last: "rule_last st u = Inr last" and l: "last = Some l" and
    right: "sym_next s = Some right" and
    j1: "join left f (if entry st k = Some this then setIndex k None st else st) = Inr st2" and
    j2: "join l right st2 = Inr st3" and
    k': "hashValue st3 l = Inr k'" and st': "st' = setIndex k' (Some l) st3"
    unfolding expand_def Let_def nonNull_def
    by (auto dest!: thenE_InrD split: option.splits)
  have r2: "rules st2 = rules st" using join_frame(1)[OF j1] by (simp split: if_splits)
  show "rules st' = rules st" using join_frame(1)[OF j2] r2 st' by simp
  have "getRule st this = Inr (Some u)" using s u by (simp add: getRule_def thenE_def)
  moreover have "getNext st this = Inr (Some right)"
    using s right by (simp add: getNext_def thenE_def)
  moreover have fr: "hashValue st' = hashValue st3" "getNext st' = getNext st3"
    unfolding st' by (rule readers_frame; simp)+
  have "hashValue st' l = Inr k'" "getNext st' l = Inr (Some right)"
    using k' join_frame(2)[OF j2] fr by simp_all
  moreover have "entry st' k' = Some l" using st' by simp
  ultimately show "\<exists>u l k right. getRule st this = Inr (Some u) \<and> rule_last st u = Inr (Some l) \<and>
           getNext st this = Inr (Some right) \<and> getNext st' l = Inr (Some right) \<and>
           hashValue st' l = Inr k \<and> entry st' k = Some l"
    using last l by blast
qed

lemma drop_result: "thenE m (\<lambda>(c, st'). Inr st') = map_sum id snd m"
  by (cases m) (auto simp: thenE_def)

section \<open>Sample runs\<close>

text \<open>
  The grammar that the driver builds for some inputs, with fuel 50: the start rule, the
  rules reachable from it (number, stored count, body), the expansion of the start rule,
  the digrams with their table entries, the symbols of each body, and all Rule objects.
\<close>

lemma run_aaa: "run 50 ''aaa'' =
     Inr \<lparr>start = 1, grammar = [(1, 0, [VTerminal CHR ''a'', VTerminal CHR ''a'',
     VTerminal CHR ''a''])], expanded = ''aaa'', digrams = [(''a+a'', 1, Some 1), (''a+a'',
     2, Some 1)], bodies = [(1, [1, 2, 3])], objects = [(1, 0, Some 1, Some 3)]\<rparr>"
  by (simp add: eval_rules del: map_of.simps cong: eval_congs)

lemma run_aaaa: "run 50 ''aaaa'' =
     Inr \<lparr>start = 1, grammar = [(1, 0, [VRule 2, VRule 2]), (2, 2, [VTerminal CHR
     ''a'', VTerminal CHR ''a''])], expanded = ''aaaa'', digrams = [(''rule:2+rule:2'', 8,
     Some 8), (''a+a'', 6, Some 6)], bodies = [(1, [8, 9]), (2, [6, 7])], objects = [(1, 0,
     Some 8, Some 9), (2, 2, Some 6, Some 7)]\<rparr>"
  by (simp add: eval_rules del: map_of.simps cong: eval_congs)

lemma run_abcabc: "run 50 ''abcabc'' =
     Inr \<lparr>start = 1, grammar = [(1, 0, [VRule 3, VRule 3]), (3, 2, [VTerminal CHR
     ''a'', VTerminal CHR ''b'', VTerminal CHR ''c''])], expanded = ''abcabc'', digrams =
     [(''rule:3+rule:3'', 15, Some 15), (''a+b'', 7, Some 7), (''b+c'', 8, Some 8)], bodies
     = [(1, [15, 16]), (3, [7, 8, 14])], objects = [(1, 0, Some 15, Some 16), (2, 1, Some 7,
     Some 8), (3, 2, Some 7, Some 14)]\<rparr>"
  by (simp add: eval_rules del: map_of.simps cong: eval_congs)

lemma run_aaababaa: "run 50 ''aaababaa'' =
     Inr \<lparr>start = 1, grammar = [(1, 0, [VTerminal CHR ''a'', VRule 3, VRule 2, VRule
     3]), (3, 2, [VTerminal CHR ''a'', VTerminal CHR ''a'']), (2, 1, [VTerminal CHR ''a'',
     VTerminal CHR ''b''])], expanded = ''aaaabaa'', digrams = [(''a+rule:3'', 1, Some 1),
     (''rule:3+rule:2'', 17, Some 17), (''rule:2+rule:3'', 11, Some 11), (''a+a'', 15, Some
     15), (''a+b'', 8, Some 8)], bodies = [(1, [1, 17, 11, 18]), (3, [15, 16]), (2, [8,
     9])], objects = [(1, 0, Some 1, Some 18), (2, 1, Some 8, Some 9), (3, 2, Some 15, Some
     16)]\<rparr>"
  by (simp add: eval_rules del: map_of.simps cong: eval_congs)

lemma run_aaabaaa: "run 50 ''aaabaaa'' =
     Inr \<lparr>start = 1, grammar = [(1, 0, [VRule 3, VTerminal CHR ''b'', VRule 3]), (3, 2,
     [VTerminal CHR ''a'', VTerminal CHR ''a'', VTerminal CHR ''a''])], expanded =
     ''aaabaaa'', digrams = [(''rule:3+b'', 16, Some 16), (''b+rule:3'', 4, Some 4),
     (''a+a'', 8, Some 9), (''a+a'', 9, Some 9)], bodies = [(1, [16, 4, 17]), (3, [8, 9,
     15])], objects = [(1, 0, Some 16, Some 17), (2, 1, Some 8, Some 9), (3, 2, Some 8, Some
     15)]\<rparr>"
  by (simp add: eval_rules del: map_of.simps cong: eval_congs)

lemma run_aaabacbaaa: "run 50 ''aaabacbaaa'' =
     Inr \<lparr>start = 1, grammar = [(1, 0, [VTerminal CHR ''a'', VTerminal CHR ''a'', VRule 3,
     VTerminal CHR ''c'', VRule 2, VRule 3]), (3, 2, [VTerminal CHR ''a'', VTerminal CHR
     ''a'']), (2, 1, [VTerminal CHR ''b'', VTerminal CHR ''a''])], expanded = ''aaaacbaaa'',
     digrams = [(''a+a'', 1, Some 17), (''a+rule:3'', 2, Some 2), (''rule:3+c'', 19, Some
     19), (''c+rule:2'', 6, Some 6), (''rule:2+rule:3'', 13, Some 13), (''a+a'', 17, Some
     17), (''b+a'', 10, Some 10)], bodies = [(1, [1, 2, 19, 6, 13, 20]), (3, [17, 18]), (2,
     [10, 11])], objects = [(1, 0, Some 1, Some 20), (2, 1, Some 10, Some 11), (3, 2, Some
     17, Some 18)]\<rparr>"
  by (simp add: eval_rules del: map_of.simps cong: eval_congs)

lemma run_abcbbabbabbb: "run 50 ''abcbbabbabbb'' =
     Inr \<lparr>start = 1, grammar = [(1, 0, [VRule 2, VTerminal CHR ''c'', VTerminal CHR
     ''b'', VRule 4, VRule 4]), (2, 2, [VTerminal CHR ''a'', VTerminal CHR ''b'']), (4, 2,
     [VTerminal CHR ''b'', VTerminal CHR ''b''])], expanded = ''abcbbbbb'', digrams =
     [(''rule:2+c'', 11, Some 11), (''c+b'', 3, Some 3), (''b+rule:4'', 4, Some 4),
     (''rule:4+rule:4'', 27, Some 27), (''a+b'', 9, Some 9), (''b+b'', 25, Some 25)], bodies
     = [(1, [11, 3, 4, 27, 28]), (2, [9, 10]), (4, [25, 26])], objects = [(1, 0, Some 11,
     Some 28), (2, 2, Some 9, Some 10), (3, 0, Some 18, Some 19), (4, 2, Some 25, Some
     26)]\<rparr>"
  by (simp add: eval_rules del: map_of.simps cong: eval_congs)

text \<open>
  A triple of identical symbols holds one digram twice, at its first and at its second
  symbol. Which of the two the table points at depends on how the triple arose. After
  \<^verbatim>\<open>aaa\<close> it is the first: \<^verbatim>\<open>check\<close> leaves the entry where it is when its successor is
  the checked symbol. After \<^verbatim>\<open>aaabaaa\<close> the triple is the body of rule 3 (symbols 8, 9
  and 15), and it is the second: the last statement of \<^verbatim>\<open>expand\<close> wrote it.
\<close>

lemma triple_entries:
  "map_sum id digrams (run 50 ''aaa'') = Inr [(''a+a'', 1, Some 1), (''a+a'', 2, Some 1)]"
  "map_sum id (\<lambda>r. (bodies r, filter (\<lambda>(k, a, e). k = ''a+a'') (digrams r)))
     (run 50 ''aaabaaa'') =
     Inr ([(1, [16, 4, 17]), (3, [8, 9, 15])], [(''a+a'', 8, Some 9), (''a+a'', 9, Some 9)])"
  by (simp_all add: run_aaa run_aaabaaa)

section \<open>The claims\<close>

text \<open>
  C1. For every input fed through the driver, the full expansion of the start rule is
  the input. The script breaks this on the input \<^verbatim>\<open>aaababaa\<close>: the run returns, and the
  start rule expands to \<^verbatim>\<open>aaaabaa\<close>. When the third \<^verbatim>\<open>a\<close> is deleted, the second triple
  branch of \<^verbatim>\<open>join\<close> stores the second \<^verbatim>\<open>a\<close> under the key \<^verbatim>\<open>a+a\<close>, although the digram
  of that symbol is being cut (the comment in \<^verbatim>\<open>join\<close> says the first pair is inserted);
  the stale entry is matched later and a digram that is not \<^verbatim>\<open>a a\<close> is replaced.
\<close>

theorem expansion_aaababaa:
  "map_sum id expanded (run 50 ''aaababaa'') = Inr ''aaaabaa'' \<and> ''aaaabaa'' \<noteq> ''aaababaa''"
  by (simp add: run_aaababaa)

text \<open>
  C2. After every append no digram of adjacent non-guard symbols occurs twice in the
  grammar, except as the overlapping halves of a triple of identical symbols. The script
  breaks this on the input \<^verbatim>\<open>aaabacbaaa\<close>: the run returns the start rule
  \<^verbatim>\<open>a a R3 c R2 R3\<close> with \<^verbatim>\<open>R3 = a a\<close> and \<^verbatim>\<open>R2 = b a\<close>, where the digram \<^verbatim>\<open>a a\<close>
  occurs at symbol 1, in the start rule, and at symbol 17, in rule 3; the two
  occurrences share no symbol. It is the defect of C1: when the second \<^verbatim>\<open>b a\<close> arrives
  and the first one (symbols 4 and 5) is deleted, the second triple branch of \<^verbatim>\<open>join\<close>
  stores symbol 3 under \<^verbatim>\<open>a+a\<close> just before its successor is changed; at the last
  \<^verbatim>\<open>a\<close> this entry is matched, and symbol 3 with its successor, \<^verbatim>\<open>a R2\<close>, is replaced by
  a non-terminal of the new rule \<^verbatim>\<open>a a\<close>, while the \<^verbatim>\<open>a a\<close> at symbols 1 and 2 stays.
\<close>

theorem repeated_digram_aaabacbaaa:
  "map_sum id (\<lambda>r. (grammar r, bodies r, filter (\<lambda>(k, a, e). k = ''a+a'') (digrams r)))
     (run 50 ''aaabacbaaa'') =
     Inr ([(1, 0, [VTerminal CHR ''a'', VTerminal CHR ''a'', VRule 3, VTerminal CHR ''c'',
               VRule 2, VRule 3]),
           (3, 2, [VTerminal CHR ''a'', VTerminal CHR ''a'']),
           (2, 1, [VTerminal CHR ''b'', VTerminal CHR ''a''])],
          [(1, [1, 2, 19, 6, 13, 20]), (3, [17, 18]), (2, [10, 11])],
          [(''a+a'', 1, Some 17), (''a+a'', 17, Some 17)])"
  by (simp add: run_aaabacbaaa)

text \<open>
  C3. After every append every rule other than the start rule has reference count at
  least 2. The script breaks this on the input \<^verbatim>\<open>aaababaa\<close>: rule 2 is in the body of
  the start rule and its count is 1 (same defect as for C1).
\<close>

theorem underused_rule_aaababaa:
  "map_sum id grammar (run 50 ''aaababaa'') =
     Inr [(1, 0, [VTerminal CHR ''a'', VRule 3, VRule 2, VRule 3]),
          (3, 2, [VTerminal CHR ''a'', VTerminal CHR ''a'']),
          (2, 1, [VTerminal CHR ''a'', VTerminal CHR ''b''])]"
  by (simp add: run_aaababaa)

text \<open>
  C4. After every append the stored count of every reachable rule is the number of
  non-terminals of the grammar that refer to it. The script breaks this on the input
  \<^verbatim>\<open>abcbbabbabbb\<close>: rule 2 has stored count 2 and one reference (same defect as for C1).
\<close>

theorem miscounted_rule_abcbbabbabbb:
  "map_sum id (\<lambda>r. (grammar r, references 2 (grammar r))) (run 50 ''abcbbabbabbb'') =
     Inr ([(1, 0, [VRule 2, VTerminal CHR ''c'', VTerminal CHR ''b'', VRule 4, VRule 4]),
           (2, 2, [VTerminal CHR ''a'', VTerminal CHR ''b'']),
           (4, 2, [VTerminal CHR ''b'', VTerminal CHR ''b''])], 1)"
  by (simp add: run_abcbbabbabbb references_def)

text \<open>
  C5. For the input a, a, a, a the processing terminates and the grammar has exactly two
  rules: the start rule, whose body is two non-terminals of rule 2, and rule 2, whose
  body is the terminals a a. No third Rule object is ever created.
\<close>

theorem aaaa_two_rules:
  "map_sum id (\<lambda>r. (start r, grammar r, map fst (objects r))) (run 50 ''aaaa'') =
     Inr (1, [(1, 0, [VRule 2, VRule 2]), (2, 2, [VTerminal CHR ''a'', VTerminal CHR ''a''])],
          [1, 2])"
  by (simp add: run_aaaa)

text \<open>
  C6. \<^verbatim>\<open>substitute\<close> deletes the two symbols of the digram, inserts one new non-terminal
  of the rule between their former neighbours, checks the left neighbour and then checks
  the new non-terminal, the successor of the left neighbour. As the script is written,
  the second check is made if and only if the first returned a falsy value: \<^verbatim>\<open>false\<close>, a
  new digram was recorded, or \<^verbatim>\<open>0\<close>, the left neighbour is a guard and nothing was
  recorded.
\<close>

theorem substitute_checks:
  assumes "replaceDigram this r st = Inr (prev, st4)" and "check n prev st4 = Inr (c, st5)"
  shows "(\<exists>s. getNext st4 prev = Inr (Some s) \<and> getPrev st4 s = Inr (Some prev) \<and>
            getRule st4 s = Inr (Some r)) \<and>
     substitute (Suc n) this r st =
       (if c = True_matched then Inr st5
        else thenE (getNext st5 prev) (\<lambda>pn. thenE (nonNull pn) (\<lambda>q.
               map_sum id snd (check n q st5))))"
proof -
  have "substitute (Suc n) this r st =
       (if c = True_matched then Inr st5
        else thenE (getNext st5 prev) (\<lambda>pn. thenE (nonNull pn) (\<lambda>q.
               map_sum id snd (check n q st5))))"
    unfolding substitute.simps assms thenE_Inr prod.case
    by (simp add: truthy_def drop_result del: check.simps)
  with replaceDigram_result[OF assms(1)] show ?thesis by blast
qed

text \<open>
  Witness: input \<^verbatim>\<open>abab\<close>, the second substitution. The left neighbour is the
  non-terminal 8, its check records a digram, and the new non-terminal is checked.
\<close>

theorem substitute_checks_witness:
  "\<exists>st st4 st5. ababOnce = Inr (2, st) \<and> replaceDigram 3 2 st = Inr (8, st4) \<and>
     check 49 8 st4 = Inr (False_recorded, st5) \<and>
     (\<exists>s. getNext st4 8 = Inr (Some s) \<and> getPrev st4 s = Inr (Some 8) \<and>
            getRule st4 s = Inr (Some 2)) \<and>
     substitute 50 3 2 st =
       thenE (getNext st5 8) (\<lambda>pn. thenE (nonNull pn) (\<lambda>q. map_sum id snd (check 49 q st5)))"
proof -
  have "thenE ababOnce (\<lambda>(u, st). thenE (replaceDigram 3 u st) (\<lambda>(prev, st4).
      thenE (check 49 prev st4) (\<lambda>(c, st5). Inr (u, prev, c)))) = Inr (2, 8, False_recorded)"
    by (simp add: eval_rules pending_def ababBuilt_def ababOnce_def del: map_of.simps
      cong: eval_congs)
  then obtain st st4 st5 where p: "ababOnce = Inr (2, st)"
    and h: "replaceDigram 3 2 st = Inr (8, st4)" "check 49 8 st4 = Inr (False_recorded, st5)"
    by (auto simp: thenE_def split: sum.splits prod.splits)
  have n: "Suc 49 = 50" by simp
  note substitute_checks[OF h, unfolded n]
  with p h show ?thesis by auto
qed

text \<open>
  Counterexample to C6 as stated: input \<^verbatim>\<open>abab\<close>, the first substitution. The left
  neighbour is the guard of the start rule, its check returns \<^verbatim>\<open>0\<close> and leaves the table
  as it is, and the script still checks the new non-terminal 8, which records
  \<^verbatim>\<open>rule:2+a\<close>; with the condition of the specification nothing would be recorded.
\<close>

lemma substitute_claimed_cong:
  "a = a' \<Longrightarrow> b = b' \<Longrightarrow> c = c' \<Longrightarrow>
     substitute_claimed a b c st = substitute_claimed a' b' c' st"
  by simp

theorem substitute_claimed_differs:
  "thenE ababBuilt (\<lambda>(u, st). thenE (replaceDigram 1 u st) (\<lambda>(prev, st4).
     thenE (check 49 prev st4) (\<lambda>(c, st5).
     Inr (isGuard st4 prev, c, digramIndex st5 = digramIndex st4,
        map_sum id digramIndex (substitute 50 1 u st),
        map_sum id digramIndex (substitute_claimed 50 1 u st))))) =
   Inr (Inr True, Zero, True,
        Inr [(''a+b'', None), (''b+a'', None), (''rule:2+a'', Some 8)],
        Inr [(''a+b'', None), (''b+a'', None)])"
  by (simp add: eval_rules pending_def ababBuilt_def substitute_claimed_def del: map_of.simps
      cong: eval_congs substitute_claimed_cong)

text \<open>
  C7. When, after the substitutions of \<^verbatim>\<open>processMatch\<close>, the first symbol of the rule is
  a non-terminal whose rule has count 1, \<^verbatim>\<open>expand\<close> is invoked on it. As the script is
  written, after splicing in the body \<^verbatim>\<open>expand\<close> performs no check: it stores the last
  body symbol under the key of the boundary digram, whatever the table held there.
\<close>

theorem expandUnderused_overwrites:
  assumes "rule_first st u = Inr (Some fa)" and "getRule st fa = Inr (Some v)"
    and "getReferenceCount st v = Inr 1" and "expandUnderused u st = Inr st'"
  shows "expand fa st = Inr st' \<and>
     (\<exists>l k. rule_last st v = Inr (Some l) \<and> hashValue st' l = Inr k \<and> entry st' k = Some l)"
proof -
  have e: "expand fa st = Inr st'"
    using assms by (simp add: expandUnderused_def thenE_Inr nonNull_def)
  from expand_result(2)[OF e] assms(2) show ?thesis using e by auto
qed

text \<open>
  Witness: input \<^verbatim>\<open>abcabc\<close>. Rule 3 starts with the non-terminal 13 of rule 2, whose
  count is 1.
\<close>

theorem expandUnderused_overwrites_witness:
  "\<exists>st st'. abcabcFormed = Inr (3, st) \<and> rule_first st 3 = Inr (Some 13) \<and>
     getRule st 13 = Inr (Some 2) \<and> getReferenceCount st 2 = Inr 1 \<and>
     expandUnderused 3 st = Inr st' \<and> expand 13 st = Inr st' \<and>
     (\<exists>l k. rule_last st 2 = Inr (Some l) \<and> hashValue st' l = Inr k \<and> entry st' k = Some l)"
proof -
  have "thenE abcabcFormed (\<lambda>(u, st). thenE (expandUnderused u st) (\<lambda>st'.
      Inr (u, rule_first st u, getRule st 13, getReferenceCount st 2))) =
    Inr (3, Inr (Some 13), Inr (Some 2), Inr 1)"
    by (simp add: eval_rules pending_def abcabcFormed_def del: map_of.simps
      cong: eval_congs)
  then obtain st st' where p: "abcabcFormed = Inr (3, st)"
    and h: "rule_first st 3 = Inr (Some 13)" "getRule st 13 = Inr (Some 2)"
      "getReferenceCount st 2 = Inr 1" "expandUnderused 3 st = Inr st'"
    by (auto simp: thenE_def split: sum.splits prod.splits)
  from expandUnderused_overwrites[OF h] p h show ?thesis by blast
qed

text \<open>
  Counterexample to C7 as stated: input \<^verbatim>\<open>aaabbabaab\<close>. When rule 4 starts with the
  non-terminal 22 of rule 3, the table holds under \<^verbatim>\<open>a+b\<close> the symbol 9, the start of the
  body \<^verbatim>\<open>a b\<close> of rule 2. The script leaves rule 4 with the body \<^verbatim>\<open>a a b\<close> and the
  entry overwritten by 17; a final check would have replaced the boundary digram by a
  non-terminal of rule 2 and kept the entry.
\<close>

lemma expand_claimed_eval: "expand_claimed n this st = thenE (symbolAt st this) (\<lambda>s.
     thenE (nonNull (sym_rule s)) (\<lambda>u.
     thenE (rule_first st u) (\<lambda>first. thenE (rule_last st u) (\<lambda>last.
     thenE (hashValue st this) (\<lambda>k.
     thenE (Inr (if entry st k = Some this then setIndex k None st else st)) (\<lambda>st1.
     thenE (nonNull (sym_prev s)) (\<lambda>left. thenE (nonNull first) (\<lambda>f.
     thenE (join left f st1) (\<lambda>st2.
     thenE (nonNull last) (\<lambda>l. thenE (nonNull (sym_next s)) (\<lambda>right.
     thenE (join l right st2) (\<lambda>st3.
     thenE (check n l st3) (\<lambda>(c, st4). Inr st4)))))))))))))"
  by (simp add: expand_claimed_def thenE_Inr Let_def)

lemma expand_claimed_cong:
  "a = a' \<Longrightarrow> b = b' \<Longrightarrow> expand_claimed a b st = expand_claimed a' b' st"
  by simp

theorem expand_does_not_check:
  "thenE aaabbabaabFormed (\<lambda>(u, st). thenE (rule_first st u) (\<lambda>f.
     Inr (u, f, entry st ''a+b'', ruleBody 50 st 2,
        thenE (expandUnderused u st) (\<lambda>st'. thenE (ruleBody 50 st' u) (\<lambda>b.
          Inr (b, entry st' ''a+b''))),
        thenE (expand_claimed 49 22 st) (\<lambda>st'. thenE (ruleBody 50 st' u) (\<lambda>b.
          Inr (b, entry st' ''a+b'')))))) =
   Inr (4, Some 22, Some 9, Inr [VTerminal CHR ''a'', VTerminal CHR ''b''],
        Inr ([VTerminal CHR ''a'', VTerminal CHR ''a'', VTerminal CHR ''b''], Some 17),
        Inr ([VTerminal CHR ''a'', VRule 2], Some 9))"
  by (simp add: eval_rules pending_def aaabbabaabFormed_def expand_claimed_eval del: map_of.simps
      cong: eval_congs expand_claimed_cong)

text \<open>
  C8. Whenever a rule is dissolved, by substitution or by expansion, its reference count
  has been dropped to zero and its symbols other than the guard are unlinked. As the
  script is written: \<^verbatim>\<open>expand\<close> on a symbol \<open>x\<close> changes no Rule object, so the count of
  the rule of \<open>x\<close> stays what it was, and the last symbol of that rule's body gets the
  successor of \<open>x\<close> as its successor. \<^verbatim>\<open>delete\<close> on a symbol \<open>y\<close>, by which \<^verbatim>\<open>substitute\<close>
  removes the two symbols of a digram, links the predecessor \<open>p\<close> of \<open>y\<close> to its
  successor \<open>n\<close> and changes no other Symbol; unless \<open>y\<close> is a guard once \<open>p\<close> and \<open>n\<close>
  are joined, the count of the rule of \<open>y\<close>, if it has one, goes down by exactly one;
  no other Rule object changes.
\<close>

theorem dissolving_keeps_rule_objects:
  assumes "expand x st = Inr st'" and "delete y sd = Inr sd'"
  shows "(rules st' = rules st \<and>
     (\<exists>v l right. getRule st x = Inr (Some v) \<and> rule_last st v = Inr (Some l) \<and>
        getNext st x = Inr (Some right) \<and> getNext st' l = Inr (Some right))) \<and>
     (\<exists>s p n sj g. symbolAt sd y = Inr s \<and> sym_prev s = Some p \<and> sym_next s = Some n \<and>
        getNext sd' p = Inr (Some n) \<and> getPrev sd' n = Inr (Some p) \<and>
        (\<forall>a. a \<noteq> p \<longrightarrow> a \<noteq> n \<longrightarrow> map_of (symbols sd') a = map_of (symbols sd) a) \<and>
        join p n sd = Inr sj \<and> isGuard sj y = Inr g \<and>
        (if g then rules sd' = rules sd
         else case sym_rule s of None \<Rightarrow> rules sd' = rules sd
           | Some u \<Rightarrow> \<exists>r. map_of (rules sd) u = Some r \<and>
               rules sd' = AList.update u (r\<lparr>referenceCount := referenceCount r - 1\<rparr>) (rules sd)))"
proof
  show "rules st' = rules st \<and>
     (\<exists>v l right. getRule st x = Inr (Some v) \<and> rule_last st v = Inr (Some l) \<and>
        getNext st x = Inr (Some right) \<and> getNext st' l = Inr (Some right))"
    using expand_result[OF assms(1)] by blast
next
  from delete_result[OF assms(2)] obtain s p n sj g where
    h: "symbolAt sd y = Inr s" "sym_prev s = Some p" "sym_next s = Some n"
       "join p n sd = Inr sj" "isGuard sj y = Inr g" and e: "symbols sd' = symbols sj" and
    r: "if g then rules sd' = rules sd
         else case sym_rule s of None \<Rightarrow> rules sd' = rules sd
           | Some u \<Rightarrow> \<exists>r. map_of (rules sd) u = Some r \<and>
               rules sd' = AList.update u (r\<lparr>referenceCount := referenceCount r - 1\<rparr>) (rules sd)"
    by blast
  have f: "\<forall>a. a \<noteq> p \<longrightarrow> a \<noteq> n \<longrightarrow> map_of (symbols sd') a = map_of (symbols sd) a"
    using join_frame(5)[OF h(4)] e by simp
  have "getNext sd' = getNext sj" "getPrev sd' = getPrev sj"
    using e by (simp_all add: getNext_def getPrev_def symbolAt_def fun_eq_iff)
  then have l: "getNext sd' p = Inr (Some n)" "getPrev sd' n = Inr (Some p)"
    using join_frame(2,3)[OF h(4)] by simp_all
  from h r f l show "\<exists>s p n sj g. symbolAt sd y = Inr s \<and> sym_prev s = Some p \<and> sym_next s = Some n \<and>
        getNext sd' p = Inr (Some n) \<and> getPrev sd' n = Inr (Some p) \<and>
        (\<forall>a. a \<noteq> p \<longrightarrow> a \<noteq> n \<longrightarrow> map_of (symbols sd') a = map_of (symbols sd) a) \<and>
        join p n sd = Inr sj \<and> isGuard sj y = Inr g \<and>
        (if g then rules sd' = rules sd
         else case sym_rule s of None \<Rightarrow> rules sd' = rules sd
           | Some u \<Rightarrow> \<exists>r. map_of (rules sd) u = Some r \<and>
               rules sd' = AList.update u (r\<lparr>referenceCount := referenceCount r - 1\<rparr>) (rules sd))"
    by blast
qed

text \<open>
  Witness. Input \<^verbatim>\<open>abcabc\<close>: the expansion of the non-terminal 13 of rule 2, whose count
  is 1 before and after. Input \<^verbatim>\<open>abcbbabbabbb\<close>: the second delete of the substitution at
  symbol 5, of the non-terminal 21 of rule 3; the count of rule 3 goes from 1 to 0, and
  the body of rule 3 still reads \<^verbatim>\<open>b R2\<close> from its guard.
\<close>

theorem dissolving_keeps_rule_objects_witness:
  "\<exists>st st' sd sd'. abcabcFormed = Inr (3, st) \<and> expand 13 st = Inr st' \<and>
     abcbbabbabbbCut = Inr sd \<and> delete 21 sd = Inr sd' \<and>
     getReferenceCount st 2 = Inr 1 \<and> getReferenceCount st' 2 = Inr 1 \<and>
     getReferenceCount sd 3 = Inr 1 \<and> getReferenceCount sd' 3 = Inr 0 \<and>
     ruleBody 50 sd' 3 = Inr [VTerminal CHR ''b'', VRule 2] \<and>
     (rules st' = rules st \<and>
     (\<exists>v l right. getRule st 13 = Inr (Some v) \<and> rule_last st v = Inr (Some l) \<and>
        getNext st 13 = Inr (Some right) \<and> getNext st' l = Inr (Some right))) \<and>
     (\<exists>s p n sj g. symbolAt sd 21 = Inr s \<and> sym_prev s = Some p \<and> sym_next s = Some n \<and>
        getNext sd' p = Inr (Some n) \<and> getPrev sd' n = Inr (Some p) \<and>
        (\<forall>a. a \<noteq> p \<longrightarrow> a \<noteq> n \<longrightarrow> map_of (symbols sd') a = map_of (symbols sd) a) \<and>
        join p n sd = Inr sj \<and> isGuard sj 21 = Inr g \<and>
        (if g then rules sd' = rules sd
         else case sym_rule s of None \<Rightarrow> rules sd' = rules sd
           | Some u \<Rightarrow> \<exists>r. map_of (rules sd) u = Some r \<and>
               rules sd' = AList.update u (r\<lparr>referenceCount := referenceCount r - 1\<rparr>) (rules sd)))"
proof -
  have "thenE abcabcFormed (\<lambda>(u, st). thenE (expand 13 st) (\<lambda>st'.
      Inr (u, getReferenceCount st 2, getReferenceCount st' 2))) = Inr (3, Inr 1, Inr 1)"
    by (simp add: eval_rules pending_def abcabcFormed_def del: map_of.simps
      cong: eval_congs)
  then obtain st st' where p: "abcabcFormed = Inr (3, st)"
    and h: "expand 13 st = Inr st'"
    and c: "getReferenceCount st 2 = Inr 1" "getReferenceCount st' 2 = Inr 1"
    by (auto simp: thenE_def split: sum.splits prod.splits)
  have "thenE abcbbabbabbbCut (\<lambda>sd. thenE (delete 21 sd) (\<lambda>sd'.
      Inr (getReferenceCount sd 3, getReferenceCount sd' 3, ruleBody 50 sd' 3))) =
      Inr (Inr 1, Inr 0, Inr [VTerminal CHR ''b'', VRule 2])"
    by (simp add: eval_rules pending_def abcbbabbabbbCut_def del: map_of.simps
      cong: eval_congs)
  then obtain sd sd' where q: "abcbbabbabbbCut = Inr sd"
    and k: "delete 21 sd = Inr sd'"
    and d: "getReferenceCount sd 3 = Inr 1" "getReferenceCount sd' 3 = Inr 0"
       "ruleBody 50 sd' 3 = Inr [VTerminal CHR ''b'', VRule 2]"
    by (auto simp: thenE_def split: sum.splits prod.splits)
  from dissolving_keeps_rule_objects[OF h k] p h c q k d show ?thesis by blast
qed

text \<open>
  Counterexample to C8 as stated. After \<^verbatim>\<open>abcabc\<close> the grammar consists of the rules 1
  and 3; rule 2 has been dissolved by expansion, its stored count is 1, and its guard
  still points at the symbols 7 and 8, which are in the body of rule 3. After
  \<^verbatim>\<open>abcbbabbabbb\<close> the grammar consists of the rules 1, 2 and 4; rule 3 has lost both its
  non-terminals to a substitution, its stored count is 0, and its guard still points at
  the symbols 18 and 19, which are in no body of the grammar and still read \<^verbatim>\<open>b R2\<close>.
\<close>

theorem dissolved_rules_stay_linked:
  "map_sum id (\<lambda>r. (map fst (grammar r), objects r, bodies r)) (run 50 ''abcabc'') =
     Inr ([1, 3],
          [(1, 0, Some 15, Some 16), (2, 1, Some 7, Some 8), (3, 2, Some 7, Some 14)],
          [(1, [15, 16]), (3, [7, 8, 14])]) \<and>
   map_sum id (\<lambda>r. (map fst (grammar r), objects r, bodies r)) (run 50 ''abcbbabbabbb'') =
     Inr ([1, 2, 4],
          [(1, 0, Some 11, Some 28), (2, 2, Some 9, Some 10), (3, 0, Some 18, Some 19),
           (4, 2, Some 25, Some 26)],
          [(1, [11, 3, 4, 27, 28]), (2, [9, 10]), (4, [25, 26])]) \<and>
   thenE (sequitur 50 ''abcbbabbabbb'') (\<lambda>(S, st). ruleBody 50 st 3) =
     Inr [VTerminal CHR ''b'', VRule 2]"
proof -
  have "thenE (sequitur 50 ''abcbbabbabbb'') (\<lambda>(S, st). ruleBody 50 st 3) =
     Inr [VTerminal CHR ''b'', VRule 2]"
    by (simp add: eval_rules del: map_of.simps cong: eval_congs)
  then show ?thesis by (simp add: run_abcabc run_abcbbabbabbb)
qed

text \<open>
  C9. In \<^verbatim>\<open>check\<close> on a symbol L, when the entry under the key of L overlaps the digram of
  L, \<^verbatim>\<open>check\<close> returns without action. As the script is written, this is the case when
  the successor of the entry is L, that is, when the entry is the left neighbour of L:
  then \<^verbatim>\<open>check\<close> returns \<^verbatim>\<open>true\<close> and the heap and the table are unchanged. For every
  other entry \<^verbatim>\<open>processMatch\<close> is called.
\<close>

theorem check_match_cases:
  assumes "isGuard st this = Inr False"
    and "getNext st this = Inr (Some r)" and "isGuard st r = Inr False"
    and "hashValue st this = Inr k" and "entry st k = Some m"
    and "getNext st m = Inr mn"
  shows "check (Suc n) this st =
     (if mn = Some this then Inr (True_matched, st)
      else thenE (processMatch n this m st) (\<lambda>st1. Inr (True_matched, st1)))"
  using assms by (simp add: thenE_def guardAt_def nonNull_def del: processMatch.simps)

text \<open>
  Witness: input \<^verbatim>\<open>aaa\<close>, the check of the second \<^verbatim>\<open>a\<close> (symbol 2) after the third has
  been appended; the entry under \<^verbatim>\<open>a+a\<close> is symbol 1.
\<close>

theorem check_match_cases_witness:
  "\<exists>S st. pending ''aa'' CHR ''a'' = Inr (S, st) \<and> isGuard st 2 = Inr False \<and>
     getNext st 2 = Inr (Some 3) \<and> isGuard st 3 = Inr False \<and>
     hashValue st 2 = Inr ''a+a'' \<and> entry st ''a+a'' = Some 1 \<and>
     getNext st 1 = Inr (Some 2) \<and> check 50 2 st = Inr (True_matched, st)"
proof -
  have "thenE (pending ''aa'' CHR ''a'') (\<lambda>(S, st).
      Inr (isGuard st 2, getNext st 2, isGuard st 3, hashValue st 2, entry st ''a+a'',
        getNext st 1)) =
    Inr (Inr False, Inr (Some 3), Inr False, Inr ''a+a'', Some 1, Inr (Some 2))"
    by (simp add: eval_rules pending_def del: map_of.simps
      cong: eval_congs)
  then obtain S st where p: "pending ''aa'' CHR ''a'' = Inr (S, st)"
    and h: "isGuard st 2 = Inr False" "getNext st 2 = Inr (Some 3)" "isGuard st 3 = Inr False"
      "hashValue st 2 = Inr ''a+a''" "entry st ''a+a'' = Some 1" "getNext st 1 = Inr (Some 2)"
    by (cases "pending ''aa'' CHR ''a''") (auto simp: thenE_def)
  have "check (Suc 49) 2 st = Inr (True_matched, st)"
    using check_match_cases[OF h, of 49] by simp
  then have "check 50 2 st = Inr (True_matched, st)" by simp
  with p h show ?thesis by blast
qed

text \<open>
  Counterexample to C9 as stated: after \<^verbatim>\<open>abc\<close> the entry under the key of symbol 1 is
  symbol 1 itself. \<^verbatim>\<open>check\<close> on symbol 1 returns \<^verbatim>\<open>true\<close> after \<^verbatim>\<open>processMatch\<close>: the
  body \<^verbatim>\<open>a b c\<close> of the start rule has become one non-terminal of a new rule 2.
\<close>

theorem check_on_indexed_symbol_acts:
  "thenE (sequitur 50 ''abc'') (\<lambda>(S, st). thenE (hashValue st 1) (\<lambda>k.
     thenE (check 50 1 st) (\<lambda>(c, st'). thenE (ruleBody 50 st S) (\<lambda>b.
     thenE (ruleBody 50 st' S) (\<lambda>b'. Inr (entry st k, c, b, b')))))) =
   Inr (Some 1, True_matched,
        [VTerminal CHR ''a'', VTerminal CHR ''b'', VTerminal CHR ''c''], [VRule 2])"
  by (simp add: eval_rules del: map_of.simps cong: eval_congs)



end
